theory Spec2Isabelle
  imports Complex_Main
begin

section \<open>Settings (api_yamdb/settings.py)\<close>

text \<open>
  Python strings are modelled as \<open>string\<close> holding the UTF-8 bytes of the text, so two
  Python strings are equal exactly when their models are. The role literals and the
  messages are the constants of the source.
\<close>

definition MODERATOR :: string where "MODERATOR = ''moderator''"
definition USER :: string where "USER = ''user''"
definition ADMIN :: string where "ADMIN = ''admin''"

section \<open>Data model (reviews/models.py)\<close>

text \<open>
  Every Django model has an implicit primary key \<open>id\<close>; it is called \<open>pk\<close> here
  (\<open>id\<close> is the identity function of HOL). A foreign key is stored under its column
  name (\<open>title_id\<close>, \<open>author_id\<close>, \<open>review_id\<close>, \<open>category_id\<close>), a nullable
  one as an option. The field \<open>text\<close> of \<open>PublicAuthor\<close> is called \<open>text_body\<close> and the
  field \<open>name\<close> of \<open>Title\<close> is \<open>title_name\<close> (\<open>name\<close> is taken by \<open>NameSlug\<close>).
\<close>

record name_slug =
  pk :: nat
  name :: string
  slug :: string

type_synonym category = name_slug
type_synonym genre = name_slug

record title =
  title_pk :: nat
  title_name :: string
  year :: nat
  description :: "string option"
  category_id :: "nat option"

record genre_title =
  gt_pk :: nat
  genre_id :: nat
  gt_title_id :: nat

record user =
  user_id :: nat
  username :: string
  email :: string
  role :: string
  first_name :: string
  last_name :: string
  bio :: string
  confirmation_code :: string
  is_superuser :: bool
  is_staff :: bool

definition is_admin :: "user \<Rightarrow> bool" where
  "is_admin u = (role u = ADMIN \<or> is_superuser u \<or> is_staff u)"

definition is_moderator :: "user \<Rightarrow> bool" where
  "is_moderator u = (role u = MODERATOR)"

record public_author =
  obj_pk :: nat
  author_id :: nat
  text_body :: string
  pub_date :: nat

record review = public_author +
  title_id :: nat
  score :: int

record comment = public_author +
  review_id :: nat

text \<open>A message written by the file based e-mail backend of the settings.\<close>

record email_message =
  subject :: string
  body :: string
  from_email :: "string option"
  to_email :: "string list"

text \<open>
  The persistent state: one list of rows per table, the counters of the
  auto-increment primary keys that the modelled operations draw from, and the
  messages the e-mail backend has written.
\<close>

record state =
  users :: "user list"
  categories :: "category list"
  genres :: "genre list"
  titles :: "title list"
  genre_titles :: "genre_title list"
  reviews :: "review list"
  comments :: "comment list"
  next_user_id :: nat
  next_review_id :: nat
  next_comment_id :: nat
  outbox :: "email_message list"

definition empty_state :: state where
  "empty_state = \<lparr>users = [], categories = [], genres = [], titles = [],
     genre_titles = [], reviews = [], comments = [], next_user_id = 1,
     next_review_id = 1, next_comment_id = 1, outbox = []\<rparr>"

section \<open>Exceptions and responses\<close>

datatype exc =
    Http404
  | ValidationError
  | NotAuthenticated
  | PermissionDenied
  | MethodNotAllowed
  | IntegrityError
  | MultipleObjectsReturned
  | TypeError
  | AttributeError
  | ValueError
  | OverflowError

datatype payload = Dict "(string \<times> string) list" | Text string | NoContent

record response =
  status :: nat
  data :: payload

text \<open>
  The status a client sees: the framework's exception handler turns the API
  exceptions into their status codes, everything else is a server error.
\<close>

fun exc_status :: "exc \<Rightarrow> nat" where
  "exc_status Http404 = 404"
| "exc_status ValidationError = 400"
| "exc_status NotAuthenticated = 401"
| "exc_status PermissionDenied = 403"
| "exc_status MethodNotAllowed = 405"
| "exc_status IntegrityError = 500"
| "exc_status MultipleObjectsReturned = 500"
| "exc_status TypeError = 500"
| "exc_status AttributeError = 500"
| "exc_status ValueError = 500"
| "exc_status OverflowError = 500"

definition http_status :: "exc + response \<Rightarrow> nat" where
  "http_status r = (case r of Inl e \<Rightarrow> exc_status e | Inr resp \<Rightarrow> status resp)"

text \<open>
  \<open>QuerySet.get\<close> on the rows a filter selected, and \<open>get_object_or_404\<close> around it:
  no row is \<open>Http404\<close>, several rows are \<open>MultipleObjectsReturned\<close>.
\<close>

fun get_object_or_404 :: "'a list \<Rightarrow> exc + 'a" where
  "get_object_or_404 [] = Inl Http404"
| "get_object_or_404 [x] = Inr x"
| "get_object_or_404 (x # y # zs) = Inl MultipleObjectsReturned"

text \<open>
  The database of the settings (SQLite) holds keys as signed 64-bit integers. A
  number from the URL that is larger cannot be bound as a query parameter: the
  lookup raises \<open>OverflowError\<close>, which no handler of the framework catches.
\<close>

definition MAX_DB_INTEGER :: nat where
  "MAX_DB_INTEGER = 2 ^ 63 - 1"

section \<open>Registration and token exchange (api/views.py)\<close>

record registration =
  reg_username :: string
  reg_email :: string

text \<open>The row \<open>User.objects.create\<close> inserts: every other field takes its default.\<close>

definition new_user :: "nat \<Rightarrow> string \<Rightarrow> string \<Rightarrow> user" where
  "new_user i uname mail = \<lparr>user_id = i, username = uname, email = mail, role = USER,
     first_name = [], last_name = [], bio = [],
     confirmation_code = ''not defined yet'', is_superuser = False, is_staff = False\<rparr>"

text \<open>
  \<open>User.objects.get_or_create(username=..., email=...)\<close>: the row with both values
  if there is one; otherwise an insert, which the unique constraints on \<open>username\<close>
  and on \<open>email\<close> refuse with \<open>IntegrityError\<close>.
\<close>

definition get_or_create :: "state \<Rightarrow> string \<Rightarrow> string \<Rightarrow> exc + (user \<times> bool \<times> state)" where
  "get_or_create s uname mail =
     (case filter (\<lambda>u. username u = uname \<and> email u = mail) (users s) of
        [] \<Rightarrow>
          (if list_ex (\<lambda>u. username u = uname \<or> email u = mail) (users s)
           then Inl IntegrityError
           else let u = new_user (next_user_id s) uname mail
                in Inr (u, True, s\<lparr>users := users s @ [u],
                                    next_user_id := Suc (next_user_id s)\<rparr>))
      | [u] \<Rightarrow> Inr (u, False, s)
      | _ \<Rightarrow> Inl MultipleObjectsReturned)"

text \<open>The Cyrillic prefix of the subject line, up to and including its last blank, in UTF-8.\<close>

definition subject_prefix :: string where
  "subject_prefix =
     [CHR 0xD0, CHR 0x9A, CHR 0xD0, CHR 0xBE, CHR 0xD0, CHR 0xB4, CHR 0x20, CHR 0xD0,
      CHR 0xBF, CHR 0xD0, CHR 0xBE, CHR 0xD0, CHR 0xB4, CHR 0xD1, CHR 0x82, CHR 0xD0,
      CHR 0xB2, CHR 0xD0, CHR 0xB5, CHR 0xD1, CHR 0x80, CHR 0xD0, CHR 0xB6, CHR 0xD0,
      CHR 0xB4, CHR 0xD0, CHR 0xB5, CHR 0xD0, CHR 0xBD, CHR 0xD0, CHR 0xB8, CHR 0xD1,
      CHR 0x8F, CHR 0x20, CHR 0xD0, CHR 0xB4, CHR 0xD0, CHR 0xBB, CHR 0xD1, CHR 0x8F,
      CHR 0x20]"

text \<open>
  \<open>UserCreation.post\<close>. The parameters stand for what is not in this file:
  \<open>is_valid\<close> is \<open>RegistrationSerializer.is_valid\<close>, \<open>make_token\<close> is the token
  generator of the framework (it reads the clock, hence \<open>now\<close>) and \<open>host_user\<close> is
  the environment's \<open>EMAIL_HOST_USER\<close>. The generated code is assigned to the
  object in memory and mailed; the source never calls \<open>save\<close> on the object, so
  the row of the table keeps the code it had.
\<close>

definition UserCreation_post ::
  "(state \<Rightarrow> registration \<Rightarrow> bool) \<Rightarrow> (nat \<Rightarrow> user \<Rightarrow> string) \<Rightarrow> string option \<Rightarrow>
   nat \<Rightarrow> state \<Rightarrow> registration \<Rightarrow> (exc + response) \<times> state" where
  "UserCreation_post is_valid make_token host_user now s d =
     (if \<not> is_valid s d then (Inl ValidationError, s)
      else case get_or_create s (reg_username d) (reg_email d) of
          Inl e \<Rightarrow> (Inl e, s)
        | Inr (found, created, s1) \<Rightarrow>
            let signed_user = found\<lparr>confirmation_code := make_token now found\<rparr>;
                message = \<lparr>subject = subject_prefix @ username signed_user,
                           body = confirmation_code signed_user,
                           from_email = host_user,
                           to_email = [email signed_user]\<rparr>
            in (Inr \<lparr>status = 200,
                      data = Dict [(''username'', reg_username d), (''email'', reg_email d)]\<rparr>,
                s1\<lparr>outbox := outbox s1 @ [message]\<rparr>))"

record token_confirmation =
  tc_username :: string
  tc_confirmation_code :: string

text \<open>
  The key of the token in the response (\<open>JWT-\<close> followed by three Cyrillic letters)
  and the Cyrillic message of the 400 answer, both in UTF-8.
\<close>

definition jwt_key :: string where
  "jwt_key = ''JWT-'' @ [CHR 0xD0, CHR 0x9A, CHR 0xD0, CHR 0xBE, CHR 0xD0, CHR 0xB4]"

definition wrong_code_message :: string where
  "wrong_code_message =
     [CHR 0xD0, CHR 0x9D, CHR 0xD0, CHR 0xB5, CHR 0xD0, CHR 0xB2, CHR 0xD0, CHR 0xB5,
      CHR 0xD1, CHR 0x80, CHR 0xD0, CHR 0xBD, CHR 0xD1, CHR 0x8B, CHR 0xD0, CHR 0xB9,
      CHR 0x20, CHR 0xD0, CHR 0xBA, CHR 0xD0, CHR 0xBE, CHR 0xD0, CHR 0xB4, CHR 0x2D,
      CHR 0xD0, CHR 0xBF, CHR 0xD0, CHR 0xBE, CHR 0xD0, CHR 0xB4, CHR 0xD1, CHR 0x82,
      CHR 0xD0, CHR 0xB2, CHR 0xD0, CHR 0xB5, CHR 0xD1, CHR 0x80, CHR 0xD0, CHR 0xB6,
      CHR 0xD0, CHR 0xB4, CHR 0xD0, CHR 0xB5, CHR 0xD0, CHR 0xBD, CHR 0xD0, CHR 0xB8,
      CHR 0xD0, CHR 0xB5, CHR 0x21]"

text \<open>
  \<open>JWTTokenConfirmation.post\<close>. \<open>is_valid\<close> is \<open>TokenConfirmationSerializer.is_valid\<close>
  and \<open>access_token\<close> is the token the JWT library issues for the user; the view
  reads the table and writes nothing.
\<close>

definition JWTTokenConfirmation_post ::
  "(token_confirmation \<Rightarrow> bool) \<Rightarrow> (user \<Rightarrow> string) \<Rightarrow> state \<Rightarrow> token_confirmation \<Rightarrow>
   exc + response" where
  "JWTTokenConfirmation_post is_valid access_token s d =
     (if \<not> is_valid d then Inl ValidationError
      else case get_object_or_404 (filter (\<lambda>u. username u = tc_username d) (users s)) of
          Inl e \<Rightarrow> Inl e
        | Inr current_user \<Rightarrow>
            if tc_confirmation_code d = confirmation_code current_user
            then Inr \<lparr>status = 201, data = Dict [(jwt_key, access_token current_user)]\<rparr>
            else Inr \<lparr>status = 400, data = Text wrong_code_message\<rparr>)"

section \<open>Authorization\<close>

datatype actor = AnonymousUser | Authenticated user

datatype http_method = GET | HEAD | OPTIONS | POST | PUT | PATCH | DELETE

definition SAFE_METHODS :: "http_method list" where
  "SAFE_METHODS = [GET, HEAD, OPTIONS]"

fun is_authenticated :: "actor \<Rightarrow> bool" where
  "is_authenticated AnonymousUser = False"
| "is_authenticated (Authenticated u) = True"

text \<open>\<open>request.user.username\<close>: the anonymous user of the framework has the empty name.\<close>

fun actor_username :: "actor \<Rightarrow> string" where
  "actor_username AnonymousUser = []"
| "actor_username (Authenticated u) = username u"

datatype viewset =
    UserViewSet
  | CategoryViewSet
  | GenreViewSet
  | TitleViewSet
  | ReviewViewSet
  | CommentViewSet

text \<open>
  What a request addresses: the collection a view set serves and, for a review or
  a comment, the \<open>author_id\<close> of the addressed object.
\<close>

datatype resource =
    UserRes
  | CategoryRes
  | GenreRes
  | TitleRes
  | ReviewRes nat
  | CommentRes nat

fun viewset_of :: "resource \<Rightarrow> viewset" where
  "viewset_of UserRes = UserViewSet"
| "viewset_of CategoryRes = CategoryViewSet"
| "viewset_of GenreRes = GenreViewSet"
| "viewset_of TitleRes = TitleViewSet"
| "viewset_of (ReviewRes a) = ReviewViewSet"
| "viewset_of (CommentRes a) = CommentViewSet"

fun author_of :: "resource \<Rightarrow> nat option" where
  "author_of (ReviewRes a) = Some a"
| "author_of (CommentRes a) = Some a"
| "author_of r = None"

datatype permission_class =
    IsAuthenticated
  | IsAuthenticatedOrReadOnly
  | IsAdmin
  | IsAdminOrReadOnly
  | IsAuthorOrModeratorOrReadOnly

text \<open>
  Modelled from the spec: the module \<open>api/permissions.py\<close> with the classes \<open>IsAdmin\<close>,
  \<open>IsAdminOrReadOnly\<close> and \<open>IsAuthorOrModeratorOrReadOnly\<close> is missing. The spec's rules:
  safe actions are always allowed; writes to categories, genres and titles need an
  authenticated actor with \<open>is_admin\<close>; the user endpoints are admin-gated; update and
  delete of a review or comment need \<open>is_admin\<close>, \<open>is_moderator\<close> or authorship.
  \<open>IsAuthenticated\<close> and \<open>IsAuthenticatedOrReadOnly\<close> are the framework's classes, and a
  class that does not define a check inherits the framework's \<open>True\<close>.
\<close>

fun has_permission :: "permission_class \<Rightarrow> http_method \<Rightarrow> actor \<Rightarrow> bool" where
  "has_permission IsAuthenticated m a = is_authenticated a"
| "has_permission IsAuthenticatedOrReadOnly m a =
     (m \<in> set SAFE_METHODS \<or> is_authenticated a)"
| "has_permission IsAdmin m a =
     (case a of AnonymousUser \<Rightarrow> False | Authenticated u \<Rightarrow> is_admin u)"
| "has_permission IsAdminOrReadOnly m a =
     (m \<in> set SAFE_METHODS \<or>
      (case a of AnonymousUser \<Rightarrow> False | Authenticated u \<Rightarrow> is_admin u))"
| "has_permission IsAuthorOrModeratorOrReadOnly m a = True"

text \<open>
  Modelled from the spec: the object check of the missing
  \<open>IsAuthorOrModeratorOrReadOnly\<close> (rule 3 of the policy); the other classes keep the
  framework's default.
\<close>

fun has_object_permission ::
  "permission_class \<Rightarrow> http_method \<Rightarrow> actor \<Rightarrow> nat option \<Rightarrow> bool" where
  "has_object_permission IsAuthorOrModeratorOrReadOnly m a obj =
     (m \<in> set SAFE_METHODS \<or>
      (case a of
         AnonymousUser \<Rightarrow> False
       | Authenticated u \<Rightarrow> is_admin u \<or> is_moderator u \<or> obj = Some (user_id u)))"
| "has_object_permission p m a obj = True"

text \<open>
  The attribute \<open>permission_classes\<close> of each view set. In \<open>has_object_permission\<close> the
  object is given by the \<open>author_id\<close> it has, if it has one.
\<close>

fun permission_classes :: "viewset \<Rightarrow> permission_class list" where
  "permission_classes UserViewSet = [IsAuthenticated, IsAdmin]"
| "permission_classes CategoryViewSet = [IsAdminOrReadOnly]"
| "permission_classes GenreViewSet = [IsAdminOrReadOnly]"
| "permission_classes TitleViewSet = [IsAdminOrReadOnly]"
| "permission_classes ReviewViewSet = [IsAuthenticatedOrReadOnly, IsAuthorOrModeratorOrReadOnly]"
| "permission_classes CommentViewSet = [IsAuthenticatedOrReadOnly, IsAuthorOrModeratorOrReadOnly]"

text \<open>
  The framework's \<open>permission_denied\<close>: with the JWT authentication class of the
  settings installed, a request that carries no credentials is answered
  \<open>NotAuthenticated\<close> (401) and an authenticated one \<open>PermissionDenied\<close> (403).
\<close>

fun permission_denied :: "actor \<Rightarrow> exc" where
  "permission_denied AnonymousUser = NotAuthenticated"
| "permission_denied (Authenticated u) = PermissionDenied"

definition check_permissions :: "permission_class list \<Rightarrow> http_method \<Rightarrow> actor \<Rightarrow> exc option" where
  "check_permissions ps m a =
     (if list_all (\<lambda>p. has_permission p m a) ps then None else Some (permission_denied a))"

definition check_object_permissions ::
  "permission_class list \<Rightarrow> http_method \<Rightarrow> actor \<Rightarrow> nat option \<Rightarrow> exc option" where
  "check_object_permissions ps m a obj =
     (if list_all (\<lambda>p. has_object_permission p m a obj) ps then None
      else Some (permission_denied a))"

text \<open>The actions of a view set, the method the router binds each to, and which address one object.\<close>

datatype action = List | Retrieve | Create | Update | PartialUpdate | Destroy

fun action_method :: "action \<Rightarrow> http_method" where
  "action_method List = GET"
| "action_method Retrieve = GET"
| "action_method Create = POST"
| "action_method Update = PUT"
| "action_method PartialUpdate = PATCH"
| "action_method Destroy = DELETE"

fun is_detail :: "action \<Rightarrow> bool" where
  "is_detail List = False"
| "is_detail Create = False"
| "is_detail a = True"

text \<open>
  The decision for a request: the view-level checks of every class, then, for an
  action on one object, the object-level checks. \<open>None\<close> lets the request through.
\<close>

definition authorize :: "actor \<Rightarrow> action \<Rightarrow> resource \<Rightarrow> exc option" where
  "authorize a act r =
     (case check_permissions (permission_classes (viewset_of r)) (action_method act) a of
        Some e \<Rightarrow> Some e
      | None \<Rightarrow>
          if is_detail act
          then check_object_permissions (permission_classes (viewset_of r))
                 (action_method act) a (author_of r)
          else None)"

definition canPerform :: "actor \<Rightarrow> action \<Rightarrow> resource \<Rightarrow> bool" where
  "canPerform a act r = (authorize a act r = None)"

text \<open>The status of the answer when the request is stopped by the policy.\<close>

definition denial_status :: "actor \<Rightarrow> action \<Rightarrow> resource \<Rightarrow> nat option" where
  "denial_status a act r = map_option exc_status (authorize a act r)"

section \<open>Reviews and comments (api/views.py, reviews/models.py)\<close>

text \<open>
  The validators of \<open>Review.score\<close>: each raises when its comparison of the value with
  the limit holds, so a value passes when it does not.
\<close>

definition MaxValueValidator :: "int \<Rightarrow> int \<Rightarrow> bool" where
  "MaxValueValidator limit v = (\<not> v > limit)"

definition MinValueValidator :: "int \<Rightarrow> int \<Rightarrow> bool" where
  "MinValueValidator limit v = (\<not> v < limit)"

definition score_validators :: "(int \<Rightarrow> bool) list" where
  "score_validators = [MaxValueValidator 10, MinValueValidator 1]"

definition run_validators :: "('a \<Rightarrow> bool) list \<Rightarrow> 'a \<Rightarrow> bool" where
  "run_validators vs v = list_all (\<lambda>check. check v) vs"

record review_data =
  rd_text :: string
  rd_score :: int

record review_patch =
  rp_text :: "string option"
  rp_score :: "int option"

record comment_data =
  cd_text :: string

definition ReviewViewSet_get_queryset :: "state \<Rightarrow> nat \<Rightarrow> exc + review list" where
  "ReviewViewSet_get_queryset s tid =
     (if MAX_DB_INTEGER < tid then Inl OverflowError
      else case get_object_or_404 (filter (\<lambda>t. title_pk t = tid) (titles s)) of
          Inl e \<Rightarrow> Inl e
        | Inr t \<Rightarrow> Inr (filter (\<lambda>r. title_id r = title_pk t) (reviews s)))"

text \<open>The request \<open>GET /titles/{title_id}/reviews/\<close>: permissions, then the rows of \<open>get_queryset\<close>.\<close>

definition ReviewViewSet_list :: "state \<Rightarrow> actor \<Rightarrow> nat \<Rightarrow> exc + review list" where
  "ReviewViewSet_list s a tid =
     (case check_permissions (permission_classes ReviewViewSet) GET a of
        Some e \<Rightarrow> Inl e
      | None \<Rightarrow> ReviewViewSet_get_queryset s tid)"

text \<open>
  \<open>Review.objects.create\<close> behind \<open>serializer.save\<close>: the constraint
  \<open>unique_author_review\<close> on (title, author) refuses a second row with
  \<open>IntegrityError\<close>; \<open>pub_date\<close> is the time of the insert.
\<close>

definition save_review :: "nat \<Rightarrow> state \<Rightarrow> nat \<Rightarrow> nat \<Rightarrow> review_data \<Rightarrow> (exc + review) \<times> state" where
  "save_review now s author tid d =
     (if list_ex (\<lambda>r. title_id r = tid \<and> author_id r = author) (reviews s)
      then (Inl IntegrityError, s)
      else let r = \<lparr>obj_pk = next_review_id s, author_id = author, text_body = rd_text d,
                     pub_date = now, title_id = tid, score = rd_score d\<rparr>
           in (Inr r, s\<lparr>reviews := reviews s @ [r],
                         next_review_id := Suc (next_review_id s)\<rparr>))"

definition ReviewViewSet_perform_create ::
  "nat \<Rightarrow> state \<Rightarrow> actor \<Rightarrow> nat \<Rightarrow> review_data \<Rightarrow> (exc + review) \<times> state" where
  "ReviewViewSet_perform_create now s a tid d =
     (if MAX_DB_INTEGER < tid then (Inl OverflowError, s)
      else case get_object_or_404 (filter (\<lambda>t. title_pk t = tid) (titles s)) of
          Inl e \<Rightarrow> (Inl e, s)
        | Inr t \<Rightarrow>
            (case get_object_or_404 (filter (\<lambda>u. username u = actor_username a) (users s)) of
               Inl e \<Rightarrow> (Inl e, s)
             | Inr u \<Rightarrow> save_review now s (user_id u) (title_pk t) d))"

text \<open>
  The request \<open>POST /titles/{title_id}/reviews/\<close>: permissions, then the serializer,
  then \<open>perform_create\<close>. The serializer is not in this file: it runs the validators
  of the model's \<open>score\<close> field, and \<open>other_checks\<close> stands for the rest of its checks.
\<close>

definition ReviewViewSet_create ::
  "(state \<Rightarrow> review_data \<Rightarrow> bool) \<Rightarrow> nat \<Rightarrow> state \<Rightarrow> actor \<Rightarrow> nat \<Rightarrow> review_data \<Rightarrow>
   (exc + review) \<times> state" where
  "ReviewViewSet_create other_checks now s a tid d =
     (case check_permissions (permission_classes ReviewViewSet) POST a of
        Some e \<Rightarrow> (Inl e, s)
      | None \<Rightarrow>
          if \<not> (run_validators score_validators (rd_score d) \<and> other_checks s d)
          then (Inl ValidationError, s)
          else ReviewViewSet_perform_create now s a tid d)"

text \<open>
  \<open>get_object\<close> of the review view set: the row with the given key among the rows of
  \<open>get_queryset\<close>, then the object-level permissions.
\<close>

definition ReviewViewSet_get_object ::
  "http_method \<Rightarrow> state \<Rightarrow> actor \<Rightarrow> nat \<Rightarrow> nat \<Rightarrow> exc + review" where
  "ReviewViewSet_get_object m s a tid rid =
     (case ReviewViewSet_get_queryset s tid of
        Inl e \<Rightarrow> Inl e
      | Inr qs \<Rightarrow>
          if MAX_DB_INTEGER < rid then Inl OverflowError
          else (case get_object_or_404 (filter (\<lambda>r. obj_pk r = rid) qs) of
             Inl e \<Rightarrow> Inl e
           | Inr instance \<Rightarrow>
               (case check_object_permissions (permission_classes ReviewViewSet) m a
                       (Some (author_id instance)) of
                  Some e \<Rightarrow> Inl e
                | None \<Rightarrow> Inr instance)))"

text \<open>The serializer's \<open>update\<close>: every field that is given is set on the instance.\<close>

definition apply_patch :: "review \<Rightarrow> review_patch \<Rightarrow> review" where
  "apply_patch r p = r\<lparr>text_body := (case rp_text p of None \<Rightarrow> text_body r | Some t \<Rightarrow> t),
                        score := (case rp_score p of None \<Rightarrow> score r | Some v \<Rightarrow> v)\<rparr>"

text \<open>
  The request \<open>PATCH /titles/{title_id}/reviews/{id}/\<close>: the fields that are given
  replace the stored ones and the row is written back under its key; title and
  author are not written. A \<open>PUT\<close> gives every field.
\<close>

definition ReviewViewSet_partial_update ::
  "(state \<Rightarrow> review_patch \<Rightarrow> bool) \<Rightarrow> state \<Rightarrow> actor \<Rightarrow> nat \<Rightarrow> nat \<Rightarrow> review_patch \<Rightarrow>
   (exc + review) \<times> state" where
  "ReviewViewSet_partial_update other_checks s a tid rid p =
     (case check_permissions (permission_classes ReviewViewSet) PATCH a of
        Some e \<Rightarrow> (Inl e, s)
      | None \<Rightarrow>
          (case ReviewViewSet_get_object PATCH s a tid rid of
             Inl e \<Rightarrow> (Inl e, s)
           | Inr instance \<Rightarrow>
               if \<not> ((case rp_score p of None \<Rightarrow> True
                        | Some v \<Rightarrow> run_validators score_validators v) \<and> other_checks s p)
               then (Inl ValidationError, s)
               else let updated = apply_patch instance p
                    in (Inr updated,
                        s\<lparr>reviews := map (\<lambda>r. if obj_pk r = obj_pk instance then updated else r)
                                         (reviews s)\<rparr>)))"

text \<open>
  The request \<open>DELETE /titles/{title_id}/reviews/{id}/\<close>; the comments of the review
  go with it (\<open>on_delete=CASCADE\<close>).
\<close>

definition ReviewViewSet_destroy ::
  "state \<Rightarrow> actor \<Rightarrow> nat \<Rightarrow> nat \<Rightarrow> (exc + response) \<times> state" where
  "ReviewViewSet_destroy s a tid rid =
     (case check_permissions (permission_classes ReviewViewSet) DELETE a of
        Some e \<Rightarrow> (Inl e, s)
      | None \<Rightarrow>
          (case ReviewViewSet_get_object DELETE s a tid rid of
             Inl e \<Rightarrow> (Inl e, s)
           | Inr instance \<Rightarrow>
               (Inr \<lparr>status = 204, data = NoContent\<rparr>,
                s\<lparr>reviews := filter (\<lambda>r. obj_pk r \<noteq> obj_pk instance) (reviews s),
                  comments := filter (\<lambda>c. review_id c \<noteq> obj_pk instance) (comments s)\<rparr>)))"

definition CommentViewSet_get_queryset :: "state \<Rightarrow> nat \<Rightarrow> exc + comment list" where
  "CommentViewSet_get_queryset s rid =
     (if MAX_DB_INTEGER < rid then Inl OverflowError
      else case get_object_or_404 (filter (\<lambda>r. obj_pk r = rid) (reviews s)) of
          Inl e \<Rightarrow> Inl e
        | Inr r \<Rightarrow> Inr (filter (\<lambda>c. review_id c = obj_pk r) (comments s)))"

definition CommentViewSet_list :: "state \<Rightarrow> actor \<Rightarrow> nat \<Rightarrow> exc + comment list" where
  "CommentViewSet_list s a rid =
     (case check_permissions (permission_classes CommentViewSet) GET a of
        Some e \<Rightarrow> Inl e
      | None \<Rightarrow> CommentViewSet_get_queryset s rid)"

text \<open>
  \<open>CommentViewSet.perform_create\<close>: the author is \<open>request.user\<close> itself; the anonymous
  user cannot be assigned to the foreign key.
\<close>

definition CommentViewSet_perform_create ::
  "nat \<Rightarrow> state \<Rightarrow> actor \<Rightarrow> nat \<Rightarrow> comment_data \<Rightarrow> (exc + comment) \<times> state" where
  "CommentViewSet_perform_create now s a rid d =
     (if MAX_DB_INTEGER < rid then (Inl OverflowError, s)
      else case get_object_or_404 (filter (\<lambda>r. obj_pk r = rid) (reviews s)) of
          Inl e \<Rightarrow> (Inl e, s)
        | Inr r \<Rightarrow>
            (case a of
               AnonymousUser \<Rightarrow> (Inl ValueError, s)
             | Authenticated u \<Rightarrow>
                 let c = \<lparr>obj_pk = next_comment_id s, author_id = user_id u,
                           text_body = cd_text d, pub_date = now, review_id = obj_pk r\<rparr>
                 in (Inr c, s\<lparr>comments := comments s @ [c],
                               next_comment_id := Suc (next_comment_id s)\<rparr>)))"

definition CommentViewSet_create ::
  "(state \<Rightarrow> comment_data \<Rightarrow> bool) \<Rightarrow> nat \<Rightarrow> state \<Rightarrow> actor \<Rightarrow> nat \<Rightarrow> comment_data \<Rightarrow>
   (exc + comment) \<times> state" where
  "CommentViewSet_create is_valid now s a rid d =
     (case check_permissions (permission_classes CommentViewSet) POST a of
        Some e \<Rightarrow> (Inl e, s)
      | None \<Rightarrow>
          if \<not> is_valid s d then (Inl ValidationError, s)
          else CommentViewSet_perform_create now s a rid d)"

section \<open>Categories (reviews/models.py, api/views.py)\<close>

text \<open>
  \<open>Category.delete()\<close>: \<open>Title.category\<close> is declared \<open>on_delete=SET_NULL\<close>, so the titles
  that point to the category get a null reference; then the category row goes.
\<close>

definition delete_category :: "state \<Rightarrow> nat \<Rightarrow> state" where
  "delete_category s cid =
     s\<lparr>titles := map (\<lambda>t. if category_id t = Some cid then t\<lparr>category_id := None\<rparr> else t)
                     (titles s),
       categories := filter (\<lambda>c. pk c \<noteq> cid) (categories s)\<rparr>"

text \<open>The framework's \<open>destroy\<close> with \<open>lookup_field = 'slug'\<close>.\<close>

definition CategoryViewSet_destroy :: "state \<Rightarrow> actor \<Rightarrow> string \<Rightarrow> (exc + response) \<times> state" where
  "CategoryViewSet_destroy s a sl =
     (case get_object_or_404 (filter (\<lambda>c. slug c = sl) (categories s)) of
        Inl e \<Rightarrow> (Inl e, s)
      | Inr c \<Rightarrow>
          (case check_object_permissions (permission_classes CategoryViewSet) DELETE a None of
             Some e \<Rightarrow> (Inl e, s)
           | None \<Rightarrow> (Inr \<lparr>status = 204, data = NoContent\<rparr>, delete_category s (pk c))))"

subsection \<open>Routing of a DELETE request\<close>

datatype route = ListRoute | DetailRoute string

text \<open>The keyword arguments the URL pattern of a route hands to the handler.\<close>

fun url_kwargs :: "route \<Rightarrow> (string \<times> string) list" where
  "url_kwargs ListRoute = []"
| "url_kwargs (DetailRoute sl) = [(''slug'', sl)]"

text \<open>
  What can answer a request: an action of the view set, one of the two methods
  named \<open>delete\<close> in the body of \<open>CategoryViewSet\<close> (in source order), or the
  framework's \<open>http_method_not_allowed\<close>.
\<close>

datatype handler =
    ActionHandler action
  | DeleteOverride1
  | DeleteOverride2
  | MethodNotAllowedHandler

text \<open>
  Modelled from the spec: the base class \<open>ListCreateDeleteViewSet\<close> of \<open>api/mixins.py\<close>
  is missing; the spec gives categories and genres create, list and delete only.
\<close>

definition ListCreateDeleteViewSet_actions :: "action list" where
  "ListCreateDeleteViewSet_actions = [Create, List, Destroy]"

text \<open>
  The router's two routes with the methods each binds, restricted to the actions
  the view set has.
\<close>

fun route_mapping :: "route \<Rightarrow> (http_method \<times> action) list" where
  "route_mapping ListRoute = [(GET, List), (POST, Create)]"
| "route_mapping (DetailRoute sl) =
     [(GET, Retrieve), (PUT, Update), (PATCH, PartialUpdate), (DELETE, Destroy)]"

definition action_map :: "action list \<Rightarrow> route \<Rightarrow> (http_method \<times> action) list" where
  "action_map actions r = filter (\<lambda>(m, a). a \<in> set actions) (route_mapping r)"

text \<open>
  The attribute \<open>delete\<close> of the class: the second \<open>def delete\<close> of the class body
  rebinds the name the first one bound.
\<close>

definition class_body_delete :: "handler list \<Rightarrow> handler option" where
  "class_body_delete defs = (case rev defs of [] \<Rightarrow> None | h # _ \<Rightarrow> Some h)"

definition CategoryViewSet_delete :: "handler option" where
  "CategoryViewSet_delete = class_body_delete [DeleteOverride1, DeleteOverride2]"

text \<open>
  The handler of a DELETE request. The view binds the actions of the route to
  their methods on the instance; \<open>dispatch\<close> then looks the method name up on the
  instance, finds a bound action first, the attribute of the class otherwise, and
  falls back to \<open>http_method_not_allowed\<close>.
\<close>

definition delete_handler :: "handler option \<Rightarrow> action list \<Rightarrow> route \<Rightarrow> handler" where
  "delete_handler own_delete actions r =
     (case map_of (action_map actions r) DELETE of
        Some a \<Rightarrow> ActionHandler a
      | None \<Rightarrow> (case own_delete of Some h \<Rightarrow> h | None \<Rightarrow> MethodNotAllowedHandler))"

text \<open>
  The body shared by both overrides, \<open>delete(self, request, pk, format=None)\<close>: the call
  fails with \<open>TypeError\<close>, before the body is entered, unless the keyword arguments
  fit the signature; the body itself reads \<open>self.model\<close>, which the view set does
  not have.
\<close>

definition binds_delete :: "(string \<times> string) list \<Rightarrow> bool" where
  "binds_delete kwargs =
     (''pk'' \<in> set (map fst kwargs) \<and>
      list_all (\<lambda>k. k = ''pk'' \<or> k = ''format'') (map fst kwargs))"

definition delete_override :: "(string \<times> string) list \<Rightarrow> exc + response" where
  "delete_override kwargs = (if binds_delete kwargs then Inl AttributeError else Inl TypeError)"

text \<open>
  Whether the body of an override is entered by a request on the route: an override
  is the handler and the call binds its parameters.
\<close>

fun body_entered :: "handler option \<Rightarrow> route \<Rightarrow> bool" where
  "body_entered (Some DeleteOverride1) r = binds_delete (url_kwargs r)"
| "body_entered (Some DeleteOverride2) r = binds_delete (url_kwargs r)"
| "body_entered h r = False"

fun run_delete_handler :: "handler \<Rightarrow> state \<Rightarrow> actor \<Rightarrow> route \<Rightarrow> (exc + response) \<times> state" where
  "run_delete_handler (ActionHandler Destroy) s a (DetailRoute sl) = CategoryViewSet_destroy s a sl"
| "run_delete_handler DeleteOverride1 s a r = (delete_override (url_kwargs r), s)"
| "run_delete_handler DeleteOverride2 s a r = (delete_override (url_kwargs r), s)"
| "run_delete_handler h s a r = (Inl MethodNotAllowed, s)"

text \<open>
  A DELETE request to the category view set whose class attribute \<open>delete\<close> is
  \<open>own_delete\<close>: the permissions, then the handler. The result names the handler
  that ran, if one did.
\<close>

definition dispatch_delete ::
  "handler option \<Rightarrow> state \<Rightarrow> actor \<Rightarrow> route \<Rightarrow> handler option \<times> (exc + response) \<times> state" where
  "dispatch_delete own_delete s a r =
     (case check_permissions (permission_classes CategoryViewSet) DELETE a of
        Some e \<Rightarrow> (None, Inl e, s)
      | None \<Rightarrow>
          let h = delete_handler own_delete ListCreateDeleteViewSet_actions r
          in (Some h, run_delete_handler h s a r))"

definition CategoryViewSet_dispatch_delete ::
  "state \<Rightarrow> actor \<Rightarrow> route \<Rightarrow> handler option \<times> (exc + response) \<times> state" where
  "CategoryViewSet_dispatch_delete = dispatch_delete CategoryViewSet_delete"

text \<open>The same view set without a \<open>delete\<close> of its own: the standard behaviour.\<close>

definition standard_dispatch_delete ::
  "state \<Rightarrow> actor \<Rightarrow> route \<Rightarrow> handler option \<times> (exc + response) \<times> state" where
  "standard_dispatch_delete = dispatch_delete None"

section \<open>Aggregate rating\<close>

definition title_scores :: "state \<Rightarrow> nat \<Rightarrow> int list" where
  "title_scores s tid = map score (filter (\<lambda>r. title_id r = tid) (reviews s))"

definition mean :: "int list \<Rightarrow> rat" where
  "mean xs = of_int (sum_list xs) / of_int (int (length xs))"

text \<open>Python's \<open>round\<close> to an integer: the nearest one, and the even one of two nearest.\<close>

definition py_round :: "rat \<Rightarrow> int" where
  "py_round x =
     (let f = \<lfloor>x\<rfloor>; d = x - of_int f
      in if d < 1 / 2 then f
         else if 1 / 2 < d then f + 1
         else if even f then f else f + 1)"

text \<open>
  Modelled from the spec: the code that computes the rating of a title (the
  serializers of \<open>api/serializers.py\<close>) is missing. The spec: the rounded mean of the
  scores of the reviews whose \<open>title_id\<close> is the title's, absent when there is none,
  computed from the stored reviews on every read. The \<open>Title\<close> model itself has no
  rating column.
\<close>

definition average_rating :: "state \<Rightarrow> nat \<Rightarrow> int option" where
  "average_rating s tid =
     (case title_scores s tid of
        [] \<Rightarrow> None
      | x # xs \<Rightarrow> Some (py_round (mean (x # xs))))"

section \<open>Sequences of requests\<close>

text \<open>
  The parts of a deployment that are not in this file: the serializers' checks,
  the token generator and the sender address.
\<close>

record deployment =
  registration_is_valid :: "state \<Rightarrow> registration \<Rightarrow> bool"
  make_token :: "nat \<Rightarrow> user \<Rightarrow> string"
  host_user :: "string option"
  review_checks :: "state \<Rightarrow> review_data \<Rightarrow> bool"
  review_patch_checks :: "state \<Rightarrow> review_patch \<Rightarrow> bool"
  comment_is_valid :: "state \<Rightarrow> comment_data \<Rightarrow> bool"

text \<open>The modelled requests that write; each carries the clock reading it is served at where the code reads the clock.\<close>

datatype call =
    Signup nat registration
  | CreateReview nat actor nat review_data
  | PatchReview actor nat nat review_patch
  | DestroyReview actor nat nat
  | CreateComment nat actor nat comment_data
  | DeleteCategory actor route

fun step :: "deployment \<Rightarrow> state \<Rightarrow> call \<Rightarrow> state" where
  "step dep s (Signup now d) =
     snd (UserCreation_post (registration_is_valid dep) (make_token dep) (host_user dep) now s d)"
| "step dep s (CreateReview now a tid d) =
     snd (ReviewViewSet_create (review_checks dep) now s a tid d)"
| "step dep s (PatchReview a tid rid p) =
     snd (ReviewViewSet_partial_update (review_patch_checks dep) s a tid rid p)"
| "step dep s (DestroyReview a tid rid) = snd (ReviewViewSet_destroy s a tid rid)"
| "step dep s (CreateComment now a rid d) =
     snd (CommentViewSet_create (comment_is_valid dep) now s a rid d)"
| "step dep s (DeleteCategory a r) = snd (snd (CategoryViewSet_dispatch_delete s a r))"

definition run :: "deployment \<Rightarrow> state \<Rightarrow> call list \<Rightarrow> state" where
  "run dep s cs = foldl (step dep) s cs"

section \<open>Invariants of the tables\<close>

definition scores_in_range :: "state \<Rightarrow> bool" where
  "scores_in_range s = list_all (\<lambda>r. 1 \<le> score r \<and> score r \<le> 10) (reviews s)"

definition review_keys_ok :: "state \<Rightarrow> bool" where
  "review_keys_ok s =
     (distinct (map obj_pk (reviews s)) \<and>
      list_all (\<lambda>r. obj_pk r < next_review_id s) (reviews s))"

definition unique_author_review :: "state \<Rightarrow> bool" where
  "unique_author_review s = distinct (map (\<lambda>r. (title_id r, author_id r)) (reviews s))"

definition usernames_unique :: "state \<Rightarrow> bool" where
  "usernames_unique s = distinct (map username (users s))"

definition codes_default :: "state \<Rightarrow> bool" where
  "codes_default s = list_all (\<lambda>u. confirmation_code u = ''not defined yet'') (users s)"

definition review_table_ok :: "state \<Rightarrow> bool" where
  "review_table_ok s = (review_keys_ok s \<and> unique_author_review s)"

definition user_table_ok :: "state \<Rightarrow> bool" where
  "user_table_ok s = (usernames_unique s \<and> codes_default s)"

section \<open>Example data\<close>

definition bob :: user where
  "bob = new_user 1 ''bob'' ''bob@x.com''"

definition root :: user where
  "root = (new_user 2 ''root'' ''root@x.com'')\<lparr>role := ADMIN\<rparr>"

definition film :: category where
  "film = \<lparr>pk = 1, name = ''Film'', slug = ''film''\<rparr>"

definition solaris :: title where
  "solaris = \<lparr>title_pk = 1, title_name = ''Solaris'', year = 1972, description = None,
     category_id = Some 1\<rparr>"

definition demo_state :: state where
  "demo_state = empty_state\<lparr>users := [bob, root], categories := [film],
     titles := [solaris], next_user_id := 3\<rparr>"

definition demo_deployment :: deployment where
  "demo_deployment = \<lparr>registration_is_valid = (\<lambda>s d. True),
     make_token = (\<lambda>now u. ''code-'' @ replicate now (CHR ''x'')),
     host_user = None,
     review_checks = (\<lambda>s d. True),
     review_patch_checks = (\<lambda>s p. True),
     comment_is_valid = (\<lambda>s d. True)\<rparr>"

definition bob_registration :: registration where
  "bob_registration = \<lparr>reg_username = ''bob'', reg_email = ''bob@x.com''\<rparr>"

definition bob_review :: review where
  "bob_review = \<lparr>obj_pk = 1, author_id = 1, text_body = ''fine'', pub_date = 5,
     title_id = 1, score = 7\<rparr>"

definition reviewed_state :: state where
  "reviewed_state = demo_state\<lparr>reviews := [bob_review], next_review_id := 2\<rparr>"

definition root_review :: review where
  "root_review = \<lparr>obj_pk = 2, author_id = 2, text_body = ''slow'', pub_date = 9,
     title_id = 1, score = 6\<rparr>"

section \<open>Token exchange\<close>

text \<open>
  C2, as the code has it. For every request that the serializer accepts: when no
  user has the given name the answer is \<open>Http404\<close> (status 404); when the user with
  that name is found and the supplied code differs from the stored one, the answer
  is status 400 with the fixed message and carries no token; when the two strings
  are equal, the answer is status 201 and its body is a dictionary with exactly
  one entry, the access token, stored under the key \<open>jwt_key\<close> of the source (not
  under \<open>access_token\<close>).
\<close>

theorem c2_confirm:
  assumes "is_valid d"
  shows "((\<forall>u \<in> set (users s). username u \<noteq> tc_username d) \<longrightarrow>
            JWTTokenConfirmation_post is_valid access_token s d = Inl Http404 \<and>
            http_status (JWTTokenConfirmation_post is_valid access_token s d) = 404) \<and>
         (\<forall>u. filter (\<lambda>u. username u = tc_username d) (users s) = [u] \<longrightarrow>
            (tc_confirmation_code d \<noteq> confirmation_code u \<longrightarrow>
               JWTTokenConfirmation_post is_valid access_token s d =
                 Inr \<lparr>status = 400, data = Text wrong_code_message\<rparr>) \<and>
            (tc_confirmation_code d = confirmation_code u \<longrightarrow>
               JWTTokenConfirmation_post is_valid access_token s d =
                 Inr \<lparr>status = 201, data = Dict [(jwt_key, access_token u)]\<rparr>))"
proof -
  have none: "filter (\<lambda>u. username u = tc_username d) (users s) = []"
    if "\<forall>u \<in> set (users s). username u \<noteq> tc_username d"
    using that by (simp add: filter_empty_conv)
  show ?thesis
    using assms none
    by (auto simp: JWTTokenConfirmation_post_def http_status_def)
qed

theorem c2_confirm_witness:
  "JWTTokenConfirmation_post (\<lambda>d. True) (\<lambda>u. ''t-'' @ username u) demo_state
     \<lparr>tc_username = ''bob'', tc_confirmation_code = ''not defined yet''\<rparr> =
     Inr \<lparr>status = 201, data = Dict [(jwt_key, ''t-bob'')]\<rparr> \<and>
   JWTTokenConfirmation_post (\<lambda>d. True) (\<lambda>u. ''t-'' @ username u) demo_state
     \<lparr>tc_username = ''bob'', tc_confirmation_code = ''guess''\<rparr> =
     Inr \<lparr>status = 400, data = Text wrong_code_message\<rparr> \<and>
   JWTTokenConfirmation_post (\<lambda>d. True) (\<lambda>u. ''t-'' @ username u) demo_state
     \<lparr>tc_username = ''eve'', tc_confirmation_code = ''guess''\<rparr> = Inl Http404"
proof -
  have f: "filter (\<lambda>u. username u = ''bob'') (users demo_state) = [bob]"
    by (simp add: demo_state_def empty_state_def bob_def root_def new_user_def)
  have n: "\<forall>u \<in> set (users demo_state). username u \<noteq> ''eve''"
    by (simp add: demo_state_def empty_state_def bob_def root_def new_user_def)
  have c: "confirmation_code bob = ''not defined yet''" "username bob = ''bob''"
    by (simp_all add: bob_def new_user_def)
  show ?thesis
    using c2_confirm [of "\<lambda>d. True" "\<lparr>tc_username = ''bob'', tc_confirmation_code = ''not defined yet''\<rparr>"
                         demo_state "\<lambda>u. ''t-'' @ username u"]
          c2_confirm [of "\<lambda>d. True" "\<lparr>tc_username = ''bob'', tc_confirmation_code = ''guess''\<rparr>"
                         demo_state "\<lambda>u. ''t-'' @ username u"]
          c2_confirm [of "\<lambda>d. True" "\<lparr>tc_username = ''eve'', tc_confirmation_code = ''guess''\<rparr>"
                         demo_state "\<lambda>u. ''t-'' @ username u"]
          f n c
    by simp
qed

text \<open>
  C2 as stated fails: the 201 answer to the right code has no entry under the key
  \<open>access_token\<close>.
\<close>

theorem c2_counterexample:
  "JWTTokenConfirmation_post (\<lambda>d. True) (\<lambda>u. ''t-'' @ username u) demo_state
     \<lparr>tc_username = ''bob'', tc_confirmation_code = ''not defined yet''\<rparr> =
     Inr \<lparr>status = 201, data = Dict [(jwt_key, ''t-bob'')]\<rparr> \<and>
   map_of [(jwt_key, ''t-bob'')] ''access_token'' = None"
  by (simp add: JWTTokenConfirmation_post_def demo_state_def empty_state_def bob_def root_def
      new_user_def jwt_key_def)

section \<open>The authorization policy\<close>

lemma safe_get: "GET \<in> set SAFE_METHODS"
  by (simp add: SAFE_METHODS_def)

lemma unsafe_methods:
  "POST \<notin> set SAFE_METHODS" "PUT \<notin> set SAFE_METHODS"
  "PATCH \<notin> set SAFE_METHODS" "DELETE \<notin> set SAFE_METHODS"
  by (simp_all add: SAFE_METHODS_def)

lemma read_allowed:
  "act = List \<or> act = Retrieve \<Longrightarrow> r \<noteq> UserRes \<Longrightarrow> canPerform a act r"
  by (cases r; cases a)
     (auto simp: canPerform_def authorize_def check_permissions_def
        check_object_permissions_def safe_get)

lemma admin_write:
  "act \<noteq> List \<Longrightarrow> act \<noteq> Retrieve \<Longrightarrow> r = CategoryRes \<or> r = GenreRes \<or> r = TitleRes \<Longrightarrow>
   canPerform a act r = (\<exists>u. a = Authenticated u \<and> is_admin u)"
  by (cases act; cases a)
     (auto simp: canPerform_def authorize_def check_permissions_def
        check_object_permissions_def unsafe_methods)

lemma owner_write:
  "act = Update \<or> act = PartialUpdate \<or> act = Destroy \<Longrightarrow> r = ReviewRes au \<or> r = CommentRes au \<Longrightarrow>
   canPerform a act r =
     (\<exists>u. a = Authenticated u \<and> (is_admin u \<or> is_moderator u \<or> user_id u = au))"
  by (cases a)
     (auto simp: canPerform_def authorize_def check_permissions_def
        check_object_permissions_def unsafe_methods)

lemma delete_denial:
  "r = CategoryRes \<or> r = GenreRes \<Longrightarrow>
   denial_status a Destroy r =
     (case a of AnonymousUser \<Rightarrow> Some 401
      | Authenticated u \<Rightarrow> if is_admin u then None else Some 403)"
  by (cases a)
     (auto simp: denial_status_def authorize_def check_permissions_def
        check_object_permissions_def unsafe_methods)

text \<open>
  C3, as the code has it. (1) Reading (list or retrieve) a category, genre, title,
  review or comment is allowed for every actor, the anonymous one included.
  (2) Every other action on a category, genre or title is allowed exactly when
  the actor is authenticated and \<open>is_admin\<close>. (3) Update, partial update and
  delete of a review or comment are allowed exactly when the actor is
  authenticated and is admin, moderator or the author of the object.
  (4) Deleting a category or genre is answered 401 to the anonymous actor, 403 to
  an authenticated actor who is not admin, and is let through for an admin.
\<close>

theorem c3_policy:
  "((act = List \<or> act = Retrieve) \<and> r \<noteq> UserRes \<longrightarrow> canPerform a act r) \<and>
   (act \<noteq> List \<and> act \<noteq> Retrieve \<and> (r = CategoryRes \<or> r = GenreRes \<or> r = TitleRes) \<longrightarrow>
      canPerform a act r = (\<exists>u. a = Authenticated u \<and> is_admin u)) \<and>
   ((act = Update \<or> act = PartialUpdate \<or> act = Destroy) \<and>
    (r = ReviewRes au \<or> r = CommentRes au) \<longrightarrow>
      canPerform a act r =
        (\<exists>u. a = Authenticated u \<and> (is_admin u \<or> is_moderator u \<or> user_id u = au))) \<and>
   (r = CategoryRes \<or> r = GenreRes \<longrightarrow>
      denial_status a Destroy r =
        (case a of AnonymousUser \<Rightarrow> Some 401
         | Authenticated u \<Rightarrow> if is_admin u then None else Some 403))"
  using read_allowed [of act r a] admin_write [of act r a] owner_write [of act r au a]
    delete_denial [of r a]
  by blast

theorem c3_policy_witness:
  "canPerform AnonymousUser List (ReviewRes 1) \<and>
   \<not> canPerform (Authenticated bob) Destroy CategoryRes \<and>
   canPerform (Authenticated root) Destroy CategoryRes \<and>
   canPerform (Authenticated bob) PartialUpdate (ReviewRes 1) \<and>
   \<not> canPerform (Authenticated bob) PartialUpdate (ReviewRes 7) \<and>
   denial_status (Authenticated bob) Destroy GenreRes = Some 403"
proof -
  have b: "\<not> is_admin bob" "\<not> is_moderator bob" "user_id bob = 1"
    by (simp_all add: bob_def new_user_def is_admin_def is_moderator_def USER_def ADMIN_def
        MODERATOR_def)
  have r: "is_admin root"
    by (simp add: root_def is_admin_def)
  show ?thesis
    using c3_policy [of List "ReviewRes 1" AnonymousUser 1]
      c3_policy [of Destroy CategoryRes "Authenticated bob" 1]
      c3_policy [of Destroy CategoryRes "Authenticated root" 1]
      c3_policy [of PartialUpdate "ReviewRes 1" "Authenticated bob" 1]
      c3_policy [of PartialUpdate "ReviewRes 7" "Authenticated bob" 7]
      c3_policy [of Destroy GenreRes "Authenticated bob" 1]
      b r
    by simp
qed

text \<open>
  C3 as stated fails twice: the anonymous actor who deletes a category is answered
  401, not 403, and listing the users is not allowed to the anonymous actor.
\<close>

theorem c3_counterexample:
  "denial_status AnonymousUser Destroy CategoryRes = Some 401 \<and>
   \<not> canPerform AnonymousUser List UserRes"
  by (simp add: denial_status_def canPerform_def authorize_def check_permissions_def
      SAFE_METHODS_def)

section \<open>Deleting a category\<close>

text \<open>
  C7. Deleting the category with key \<open>cid\<close> keeps every title row in its place:
  the row keeps its key, name, year and description, and its category reference
  becomes null if it pointed to \<open>cid\<close> and is unchanged otherwise. The genre links
  (the rows of the join table), the genres, users, reviews, comments and the
  written mails are unchanged, and the other categories stay.
\<close>

theorem c7_delete_category:
  "length (titles (delete_category s cid)) = length (titles s) \<and>
   (\<forall>i < length (titles s).
      title_pk (titles (delete_category s cid) ! i) = title_pk (titles s ! i) \<and>
      title_name (titles (delete_category s cid) ! i) = title_name (titles s ! i) \<and>
      year (titles (delete_category s cid) ! i) = year (titles s ! i) \<and>
      description (titles (delete_category s cid) ! i) = description (titles s ! i) \<and>
      category_id (titles (delete_category s cid) ! i) =
        (if category_id (titles s ! i) = Some cid then None else category_id (titles s ! i))) \<and>
   categories (delete_category s cid) = filter (\<lambda>c. pk c \<noteq> cid) (categories s) \<and>
   genre_titles (delete_category s cid) = genre_titles s \<and>
   genres (delete_category s cid) = genres s \<and>
   users (delete_category s cid) = users s \<and>
   reviews (delete_category s cid) = reviews s \<and>
   comments (delete_category s cid) = comments s \<and>
   outbox (delete_category s cid) = outbox s"
  by (simp add: delete_category_def)

theorem c7_delete_category_witness:
  "titles (delete_category demo_state 1) = [solaris\<lparr>category_id := None\<rparr>] \<and>
   categories (delete_category demo_state 1) = [] \<and>
   title_name (titles (delete_category demo_state 1) ! 0) = ''Solaris'' \<and>
   category_id (titles (delete_category demo_state 1) ! 0) = None \<and>
   users (delete_category demo_state 1) = [bob, root]"
  using c7_delete_category [of demo_state 1]
  by (simp add: delete_category_def demo_state_def empty_state_def solaris_def film_def)

section \<open>Requests under a parent that does not exist\<close>

lemma score_validators_iff: "run_validators score_validators v = (1 \<le> v \<and> v \<le> 10)"
  by (auto simp: run_validators_def score_validators_def MaxValueValidator_def
      MinValueValidator_def)

lemma list_permitted:
  "check_permissions [IsAuthenticatedOrReadOnly, IsAuthorOrModeratorOrReadOnly] GET a = None"
  by (simp add: check_permissions_def safe_get)

lemma no_title_filter:
  "\<forall>t \<in> set (titles s). title_pk t \<noteq> tid \<Longrightarrow> filter (\<lambda>t. title_pk t = tid) (titles s) = []"
  by (simp add: filter_empty_conv)

lemma no_review_filter:
  "\<forall>r \<in> set (reviews s). obj_pk r \<noteq> rid \<Longrightarrow> filter (\<lambda>r. obj_pk r = rid) (reviews s) = []"
  by (simp add: filter_empty_conv)

lemma review_queryset_missing_title:
  "tid \<le> MAX_DB_INTEGER \<Longrightarrow> \<forall>t \<in> set (titles s). title_pk t \<noteq> tid \<Longrightarrow>
   ReviewViewSet_get_queryset s tid = Inl Http404"
  by (simp add: ReviewViewSet_get_queryset_def no_title_filter)

lemma review_perform_create_missing_title:
  "tid \<le> MAX_DB_INTEGER \<Longrightarrow> \<forall>t \<in> set (titles s). title_pk t \<noteq> tid \<Longrightarrow>
   ReviewViewSet_perform_create now s a tid d = (Inl Http404, s)"
  by (simp add: ReviewViewSet_perform_create_def no_title_filter)

lemma review_create_missing_title:
  "\<forall>t \<in> set (titles s). title_pk t \<noteq> tid \<Longrightarrow>
   \<exists>e. ReviewViewSet_create ck now s a tid d = (Inl e, s)"
  by (simp add: ReviewViewSet_create_def ReviewViewSet_perform_create_def no_title_filter
      split: option.splits)

lemma review_create_missing_title_404:
  "tid \<le> MAX_DB_INTEGER \<Longrightarrow> \<forall>t \<in> set (titles s). title_pk t \<noteq> tid \<Longrightarrow>
   is_authenticated a \<Longrightarrow> run_validators score_validators (rd_score d) \<Longrightarrow> ck s d \<Longrightarrow>
   ReviewViewSet_create ck now s a tid d = (Inl Http404, s)"
  by (simp add: ReviewViewSet_create_def review_perform_create_missing_title
      check_permissions_def)

lemma comment_queryset_missing_review:
  "rid \<le> MAX_DB_INTEGER \<Longrightarrow> \<forall>r \<in> set (reviews s). obj_pk r \<noteq> rid \<Longrightarrow>
   CommentViewSet_get_queryset s rid = Inl Http404"
  by (simp add: CommentViewSet_get_queryset_def no_review_filter)

lemma comment_perform_create_missing_review:
  "rid \<le> MAX_DB_INTEGER \<Longrightarrow> \<forall>r \<in> set (reviews s). obj_pk r \<noteq> rid \<Longrightarrow>
   CommentViewSet_perform_create now s a rid c = (Inl Http404, s)"
  by (simp add: CommentViewSet_perform_create_def no_review_filter)

lemma comment_create_missing_review:
  "\<forall>r \<in> set (reviews s). obj_pk r \<noteq> rid \<Longrightarrow>
   \<exists>e. CommentViewSet_create v now s a rid c = (Inl e, s)"
  by (simp add: CommentViewSet_create_def CommentViewSet_perform_create_def no_review_filter
      split: option.splits)

lemma comment_create_missing_review_404:
  "rid \<le> MAX_DB_INTEGER \<Longrightarrow> \<forall>r \<in> set (reviews s). obj_pk r \<noteq> rid \<Longrightarrow>
   is_authenticated a \<Longrightarrow> v s c \<Longrightarrow>
   CommentViewSet_create v now s a rid c = (Inl Http404, s)"
  by (simp add: CommentViewSet_create_def comment_perform_create_missing_review
      check_permissions_def)

text \<open>
  C10, as the code has it. Let the key \<open>tid\<close> from the URL be within the range of
  the database's integers and let no title have it. Then the rows for a review
  listing and the list request of any actor are \<open>Http404\<close> (status 404, not an
  empty list), the create operation \<open>perform_create\<close> ends in \<open>Http404\<close> with the
  state as it was, and the create request ends in \<open>Http404\<close> when the actor is
  authenticated and the serializer accepts the payload. Whatever the actor, the
  payload and the size of the key, a create request under a key that no title
  has ends in an error and stores nothing. The same holds for comments and the
  key \<open>rid\<close> of the review.
\<close>

theorem c10_missing_parent:
  "(tid \<le> MAX_DB_INTEGER \<and> (\<forall>t \<in> set (titles s). title_pk t \<noteq> tid) \<longrightarrow>
      ReviewViewSet_get_queryset s tid = Inl Http404 \<and>
      ReviewViewSet_list s a tid = Inl Http404 \<and>
      ReviewViewSet_perform_create now s a tid d = (Inl Http404, s) \<and>
      (is_authenticated a \<and> run_validators score_validators (rd_score d) \<and> ck s d \<longrightarrow>
         ReviewViewSet_create ck now s a tid d = (Inl Http404, s))) \<and>
   ((\<forall>t \<in> set (titles s). title_pk t \<noteq> tid) \<longrightarrow>
      (\<exists>e. ReviewViewSet_create ck now s a tid d = (Inl e, s))) \<and>
   (rid \<le> MAX_DB_INTEGER \<and> (\<forall>r \<in> set (reviews s). obj_pk r \<noteq> rid) \<longrightarrow>
      CommentViewSet_get_queryset s rid = Inl Http404 \<and>
      CommentViewSet_list s a rid = Inl Http404 \<and>
      CommentViewSet_perform_create now s a rid c = (Inl Http404, s) \<and>
      (is_authenticated a \<and> v s c \<longrightarrow>
         CommentViewSet_create v now s a rid c = (Inl Http404, s))) \<and>
   ((\<forall>r \<in> set (reviews s). obj_pk r \<noteq> rid) \<longrightarrow>
      (\<exists>e. CommentViewSet_create v now s a rid c = (Inl e, s))) \<and>
   exc_status Http404 = 404"
proof (intro conjI impI)
  assume h: "tid \<le> MAX_DB_INTEGER \<and> (\<forall>t \<in> set (titles s). title_pk t \<noteq> tid)"
  then show q: "ReviewViewSet_get_queryset s tid = Inl Http404"
    by (simp add: review_queryset_missing_title)
  then show "ReviewViewSet_list s a tid = Inl Http404"
    by (simp add: ReviewViewSet_list_def list_permitted)
  from h show "ReviewViewSet_perform_create now s a tid d = (Inl Http404, s)"
    by (simp add: review_perform_create_missing_title)
  show "ReviewViewSet_create ck now s a tid d = (Inl Http404, s)"
    if "is_authenticated a \<and> run_validators score_validators (rd_score d) \<and> ck s d"
    using h that by (simp add: review_create_missing_title_404)
next
  assume "\<forall>t \<in> set (titles s). title_pk t \<noteq> tid"
  then show "\<exists>e. ReviewViewSet_create ck now s a tid d = (Inl e, s)"
    by (rule review_create_missing_title)
next
  assume h: "rid \<le> MAX_DB_INTEGER \<and> (\<forall>r \<in> set (reviews s). obj_pk r \<noteq> rid)"
  then show q: "CommentViewSet_get_queryset s rid = Inl Http404"
    by (simp add: comment_queryset_missing_review)
  then show "CommentViewSet_list s a rid = Inl Http404"
    by (simp add: CommentViewSet_list_def list_permitted)
  from h show "CommentViewSet_perform_create now s a rid c = (Inl Http404, s)"
    by (simp add: comment_perform_create_missing_review)
  show "CommentViewSet_create v now s a rid c = (Inl Http404, s)"
    if "is_authenticated a \<and> v s c"
    using h that by (simp add: comment_create_missing_review_404)
next
  assume "\<forall>r \<in> set (reviews s). obj_pk r \<noteq> rid"
  then show "\<exists>e. CommentViewSet_create v now s a rid c = (Inl e, s)"
    by (rule comment_create_missing_review)
next
  show "exc_status Http404 = 404"
    by simp
qed

theorem c10_missing_parent_witness:
  "ReviewViewSet_list demo_state AnonymousUser 999 = Inl Http404 \<and>
   ReviewViewSet_create (\<lambda>s d. True) 5 demo_state (Authenticated bob) 999
     \<lparr>rd_text = ''fine'', rd_score = 7\<rparr> = (Inl Http404, demo_state) \<and>
   ReviewViewSet_perform_create 5 demo_state (Authenticated bob) 999
     \<lparr>rd_text = ''fine'', rd_score = 7\<rparr> = (Inl Http404, demo_state) \<and>
   CommentViewSet_list demo_state AnonymousUser 1 = Inl Http404 \<and>
   CommentViewSet_perform_create 5 demo_state (Authenticated bob) 1 \<lparr>cd_text = ''yes''\<rparr> =
     (Inl Http404, demo_state)"
proof -
  have t: "\<forall>t \<in> set (titles demo_state). title_pk t \<noteq> 999"
    by (simp add: demo_state_def empty_state_def solaris_def)
  have r: "\<forall>r \<in> set (reviews demo_state). obj_pk r \<noteq> 1"
    by (simp add: demo_state_def empty_state_def)
  have m: "(999::nat) \<le> MAX_DB_INTEGER" "(1::nat) \<le> MAX_DB_INTEGER"
    by (simp_all add: MAX_DB_INTEGER_def)
  show ?thesis
    using c10_missing_parent [where s = demo_state and tid = 999 and a = AnonymousUser
        and rid = 1]
      c10_missing_parent [where s = demo_state and tid = 999 and a = "Authenticated bob"
        and now = 5 and d = "\<lparr>rd_text = ''fine'', rd_score = 7\<rparr>" and ck = "\<lambda>s d. True"
        and rid = 1 and c = "\<lparr>cd_text = ''yes''\<rparr>" and v = "\<lambda>s d. True"]
      t r m
    by (simp add: score_validators_iff)
qed

text \<open>
  C10 as stated fails: under a key that no title has, the create request of the
  anonymous actor is answered \<open>NotAuthenticated\<close> (401) and the one with a score of
  11 is answered \<open>ValidationError\<close> (400), both before the title is looked up; and
  the list request under the key \<open>2 ^ 63\<close> ends in \<open>OverflowError\<close>.
\<close>

theorem c10_counterexample:
  "ReviewViewSet_create (\<lambda>s d. True) 5 demo_state AnonymousUser 999
     \<lparr>rd_text = ''fine'', rd_score = 7\<rparr> = (Inl NotAuthenticated, demo_state) \<and>
   ReviewViewSet_create (\<lambda>s d. True) 5 demo_state (Authenticated bob) 999
     \<lparr>rd_text = ''fine'', rd_score = 11\<rparr> = (Inl ValidationError, demo_state) \<and>
   ReviewViewSet_list demo_state AnonymousUser (2 ^ 63) = Inl OverflowError \<and>
   map title_pk (titles demo_state) = [1]"
  by (simp add: ReviewViewSet_create_def ReviewViewSet_list_def ReviewViewSet_get_queryset_def
      check_permissions_def SAFE_METHODS_def score_validators_iff MAX_DB_INTEGER_def
      demo_state_def empty_state_def solaris_def)

section \<open>The delete overrides of the category view set\<close>

lemma delete_handler_detail:
  "delete_handler own ListCreateDeleteViewSet_actions (DetailRoute sl) = ActionHandler Destroy"
  by (simp add: delete_handler_def action_map_def ListCreateDeleteViewSet_actions_def)

lemma delete_handler_list:
  "delete_handler own ListCreateDeleteViewSet_actions ListRoute =
     (case own of Some h \<Rightarrow> h | None \<Rightarrow> MethodNotAllowedHandler)"
  by (simp add: delete_handler_def action_map_def ListCreateDeleteViewSet_actions_def)

lemma CategoryViewSet_delete_second: "CategoryViewSet_delete = Some DeleteOverride2"
  by (simp add: CategoryViewSet_delete_def class_body_delete_def)

lemma url_kwargs_never_bind: "\<not> binds_delete (url_kwargs r)"
  by (cases r) (simp_all add: binds_delete_def)

text \<open>
  On the route of one category the router binds DELETE to \<open>destroy\<close> on the
  instance, which hides the method of the class: the request is served as by
  the view set without overrides.
\<close>

lemma category_delete_by_slug_standard:
  "CategoryViewSet_dispatch_delete s a (DetailRoute sl) = standard_dispatch_delete s a (DetailRoute sl)"
  by (simp add: CategoryViewSet_dispatch_delete_def standard_dispatch_delete_def
      dispatch_delete_def delete_handler_detail split: option.splits)

lemma category_delete_by_slug_outcome:
  "CategoryViewSet_dispatch_delete s a (DetailRoute sl) =
     (case a of
        AnonymousUser \<Rightarrow> (None, Inl NotAuthenticated, s)
      | Authenticated u \<Rightarrow>
          if is_admin u then (Some (ActionHandler Destroy), CategoryViewSet_destroy s a sl)
          else (None, Inl PermissionDenied, s))"
  by (cases a)
     (simp_all add: CategoryViewSet_dispatch_delete_def dispatch_delete_def
        delete_handler_detail check_permissions_def unsafe_methods)

text \<open>No request enters the body of an override: on no route do the keyword arguments of the URL fit its signature.\<close>

lemma no_override_body_entered:
  "\<not> body_entered (fst (CategoryViewSet_dispatch_delete s a r)) r"
proof (cases "fst (CategoryViewSet_dispatch_delete s a r)")
  case None
  then show ?thesis by simp
next
  case (Some h)
  then show ?thesis
    by (cases h) (simp_all add: url_kwargs_never_bind)
qed

text \<open>The first of the two overrides is rebound by the second and is the handler of no request.\<close>

lemma first_override_never_runs:
  "fst (CategoryViewSet_dispatch_delete s a r) \<noteq> Some DeleteOverride1"
  by (cases r)
     (simp_all add: CategoryViewSet_dispatch_delete_def dispatch_delete_def delete_handler_detail
        delete_handler_list CategoryViewSet_delete_second split: option.splits)

text \<open>
  On the route of the collection, which addresses no category, a DELETE request
  of an admin finds no bound action and reaches the second override; the call
  fails at the binding of \<open>pk\<close>, where the view set without overrides answers
  \<open>MethodNotAllowed\<close>.
\<close>

lemma collection_delete_reaches_override:
  "CategoryViewSet_dispatch_delete demo_state (Authenticated root) ListRoute =
     (Some DeleteOverride2, Inl TypeError, demo_state) \<and>
   standard_dispatch_delete demo_state (Authenticated root) ListRoute =
     (Some MethodNotAllowedHandler, Inl MethodNotAllowed, demo_state)"
  by (simp add: CategoryViewSet_dispatch_delete_def standard_dispatch_delete_def
      dispatch_delete_def delete_handler_list CategoryViewSet_delete_second
      check_permissions_def SAFE_METHODS_def root_def is_admin_def delete_override_def
      binds_delete_def)

text \<open>
  C8. A DELETE request on a category (the route with the category's slug) is
  served exactly as by the view set without the overrides: it is answered 401 to
  the anonymous actor and 403 to an authenticated actor who is not admin, and for
  an admin the handler is the standard \<open>destroy\<close> by slug. The body of an override
  is entered by no DELETE request on any route, and the first override is the
  handler of none.
\<close>

theorem c8_delete_overrides_dead:
  "CategoryViewSet_dispatch_delete s a (DetailRoute sl) =
     standard_dispatch_delete s a (DetailRoute sl) \<and>
   CategoryViewSet_dispatch_delete s a (DetailRoute sl) =
     (case a of
        AnonymousUser \<Rightarrow> (None, Inl NotAuthenticated, s)
      | Authenticated u \<Rightarrow>
          if is_admin u then (Some (ActionHandler Destroy), CategoryViewSet_destroy s a sl)
          else (None, Inl PermissionDenied, s)) \<and>
   \<not> body_entered (fst (CategoryViewSet_dispatch_delete s a r)) r \<and>
   fst (CategoryViewSet_dispatch_delete s a r) \<noteq> Some DeleteOverride1"
  using category_delete_by_slug_standard [of s a sl] category_delete_by_slug_outcome [of s a sl]
    no_override_body_entered [of s a r] first_override_never_runs [of s a r]
  by simp

theorem c8_delete_overrides_dead_witness:
  "CategoryViewSet_dispatch_delete demo_state (Authenticated root) (DetailRoute ''film'') =
     (Some (ActionHandler Destroy), Inr \<lparr>status = 204, data = NoContent\<rparr>,
      delete_category demo_state 1) \<and>
   CategoryViewSet_dispatch_delete demo_state (Authenticated bob) (DetailRoute ''film'') =
     (None, Inl PermissionDenied, demo_state) \<and>
   standard_dispatch_delete demo_state (Authenticated root) (DetailRoute ''film'') =
     (Some (ActionHandler Destroy), Inr \<lparr>status = 204, data = NoContent\<rparr>,
      delete_category demo_state 1)"
proof -
  have a: "is_admin root" "\<not> is_admin bob"
    by (simp_all add: root_def bob_def new_user_def is_admin_def USER_def ADMIN_def)
  have d: "CategoryViewSet_destroy demo_state (Authenticated root) ''film'' =
      (Inr \<lparr>status = 204, data = NoContent\<rparr>, delete_category demo_state 1)"
    by (simp add: CategoryViewSet_destroy_def demo_state_def empty_state_def film_def
        check_object_permissions_def)
  show ?thesis
    using c8_delete_overrides_dead [where s = demo_state and a = "Authenticated root"
        and sl = "''film''" and r = ListRoute]
      c8_delete_overrides_dead [where s = demo_state and a = "Authenticated bob"
        and sl = "''film''" and r = ListRoute]
      a d
    by auto
qed

section \<open>Signing up twice\<close>

lemma first_signup:
  "UserCreation_post (\<lambda>s d. True) tok h now empty_state bob_registration =
    (Inr \<lparr>status = 200, data = Dict [(''username'', ''bob''), (''email'', ''bob@x.com'')]\<rparr>,
     empty_state\<lparr>users := [bob], next_user_id := 2,
       outbox := [\<lparr>subject = subject_prefix @ ''bob'', body = tok now bob, from_email = h,
                   to_email = [''bob@x.com'']\<rparr>]\<rparr>)"
  by (simp add: UserCreation_post_def get_or_create_def empty_state_def bob_registration_def
      bob_def new_user_def Let_def)

lemma second_signup:
  "users s = [bob] \<Longrightarrow>
   UserCreation_post (\<lambda>s d. True) tok h now s bob_registration =
    (Inr \<lparr>status = 200, data = Dict [(''username'', ''bob''), (''email'', ''bob@x.com'')]\<rparr>,
     s\<lparr>outbox := outbox s @ [\<lparr>subject = subject_prefix @ ''bob'', body = tok now bob,
                              from_email = h, to_email = [''bob@x.com'']\<rparr>]\<rparr>)"
  by (simp add: UserCreation_post_def get_or_create_def bob_registration_def
      bob_def new_user_def Let_def)

text \<open>
  C1 fails where it says that the code is persisted. After two sign-ups of the
  same pair, at clock readings 1 and 2, there is one user row (the second call
  reused it), two different codes have been mailed, the stored code is still the
  default of the field, and the token exchange with the code of the second mail
  is answered 400.
\<close>

theorem c1_signup_code_not_persisted:
  "users (run demo_deployment empty_state [Signup 1 bob_registration, Signup 2 bob_registration]) =
     [bob] \<and>
   map body (outbox (run demo_deployment empty_state
      [Signup 1 bob_registration, Signup 2 bob_registration])) = [''code-x'', ''code-xx''] \<and>
   confirmation_code bob = ''not defined yet'' \<and>
   JWTTokenConfirmation_post (\<lambda>d. True) (\<lambda>u. ''t-'' @ username u)
     (run demo_deployment empty_state [Signup 1 bob_registration, Signup 2 bob_registration])
     \<lparr>tc_username = ''bob'', tc_confirmation_code = ''code-xx''\<rparr> =
     Inr \<lparr>status = 400, data = Text wrong_code_message\<rparr>"
proof -
  have r: "run demo_deployment empty_state [Signup 1 bob_registration, Signup 2 bob_registration] =
    empty_state\<lparr>users := [bob], next_user_id := 2,
       outbox := [\<lparr>subject = subject_prefix @ ''bob'', body = ''code-x'', from_email = None,
                   to_email = [''bob@x.com'']\<rparr>,
                  \<lparr>subject = subject_prefix @ ''bob'', body = ''code-xx'', from_email = None,
                   to_email = [''bob@x.com'']\<rparr>]\<rparr>"
    by (simp add: run_def demo_deployment_def first_signup second_signup numeral_2_eq_2)
  show ?thesis
    unfolding r
    by (simp add: JWTTokenConfirmation_post_def bob_def new_user_def)
qed

section \<open>What a request changes\<close>

lemma get_object_or_404_Inr: "get_object_or_404 xs = Inr x \<Longrightarrow> xs = [x]"
  by (cases xs rule: get_object_or_404.cases) simp_all

lemma filter_key_single:
  "distinct (map f xs) \<Longrightarrow> x \<in> set xs \<Longrightarrow> filter (\<lambda>y. f y = f x) xs = [x]"
proof (induction xs)
  case Nil
  then show ?case by simp
next
  case (Cons y ys)
  show ?case
  proof (cases "y = x")
    case True
    have "\<forall>z \<in> set ys. f z \<noteq> f x"
      using Cons.prems True by (auto simp: image_iff)
    then have "filter (\<lambda>z. f z = f x) ys = []"
      by (simp add: filter_empty_conv)
    with True show ?thesis by simp
  next
    case False
    with Cons show ?thesis by auto
  qed
qed

subsection \<open>Signing up\<close>

lemma signup_users:
  "users (snd (UserCreation_post v tok h now s d)) = users s \<or>
   (users (snd (UserCreation_post v tok h now s d)) =
      users s @ [new_user (next_user_id s) (reg_username d) (reg_email d)] \<and>
    \<not> list_ex (\<lambda>u. username u = reg_username d \<or> email u = reg_email d) (users s))"
  by (simp add: UserCreation_post_def get_or_create_def Let_def split: list.splits)

lemma signup_reviews:
  "reviews (snd (UserCreation_post v tok h now s d)) = reviews s \<and>
   next_review_id (snd (UserCreation_post v tok h now s d)) = next_review_id s \<and>
   titles (snd (UserCreation_post v tok h now s d)) = titles s"
  by (simp add: UserCreation_post_def get_or_create_def Let_def split: list.splits)

subsection \<open>Requests on reviews\<close>

lemma review_create_cases:
  "snd (ReviewViewSet_create ck now s a tid d) = s \<or>
   (\<exists>au t. snd (ReviewViewSet_create ck now s a tid d) =
       s\<lparr>reviews := reviews s @ [\<lparr>obj_pk = next_review_id s, author_id = au,
            text_body = rd_text d, pub_date = now, title_id = t, score = rd_score d\<rparr>],
         next_review_id := Suc (next_review_id s)\<rparr> \<and>
     \<not> list_ex (\<lambda>r. title_id r = t \<and> author_id r = au) (reviews s) \<and>
     1 \<le> rd_score d \<and> rd_score d \<le> 10)"
  by (auto simp: ReviewViewSet_create_def ReviewViewSet_perform_create_def save_review_def
      score_validators_iff Let_def split: option.splits sum.splits)

lemma perform_create_success:
  assumes "ReviewViewSet_perform_create now s a tid d = (Inr r, s')"
  shows "tid \<le> MAX_DB_INTEGER \<and>
    (\<exists>(t :: title) (u :: user).
       filter (\<lambda>t. title_pk t = tid) (titles s) = [t] \<and>
       filter (\<lambda>u. username u = actor_username a) (users s) = [u] \<and>
       save_review now s (user_id u) tid d = (Inr r, s'))"
proof -
  from assms have m: "tid \<le> MAX_DB_INTEGER"
    by (auto simp: ReviewViewSet_perform_create_def split: if_splits)
  with assms obtain t :: title where
    t: "get_object_or_404 (filter (\<lambda>t. title_pk t = tid) (titles s)) = Inr t"
    by (auto simp: ReviewViewSet_perform_create_def split: sum.splits)
  then have ft: "filter (\<lambda>t. title_pk t = tid) (titles s) = [t]"
    by (rule get_object_or_404_Inr)
  then have "t \<in> set (filter (\<lambda>t. title_pk t = tid) (titles s))"
    by simp
  then have tt: "title_pk t = tid"
    by simp
  from assms m t obtain u :: user where
    u: "get_object_or_404 (filter (\<lambda>u. username u = actor_username a) (users s)) = Inr u"
    by (auto simp: ReviewViewSet_perform_create_def split: sum.splits)
  then have fu: "filter (\<lambda>u. username u = actor_username a) (users s) = [u]"
    by (rule get_object_or_404_Inr)
  from assms m t u have "save_review now s (user_id u) tid d = (Inr r, s')"
    by (simp add: ReviewViewSet_perform_create_def tt)
  with m ft fu show ?thesis
    by blast
qed

lemma get_object_member:
  "ReviewViewSet_get_object m s a tid rid = Inr inst \<Longrightarrow> inst \<in> set (reviews s)"
proof -
  assume g: "ReviewViewSet_get_object m s a tid rid = Inr inst"
  then obtain qs where q: "ReviewViewSet_get_queryset s tid = Inr qs"
    and f: "get_object_or_404 (filter (\<lambda>r. obj_pk r = rid) qs) = Inr inst"
    by (auto simp: ReviewViewSet_get_object_def split: sum.splits option.splits if_splits)
  from q obtain t :: title where "qs = filter (\<lambda>r. title_id r = title_pk t) (reviews s)"
    by (auto simp: ReviewViewSet_get_queryset_def split: sum.splits if_splits)
  moreover from f have "filter (\<lambda>r. obj_pk r = rid) qs = [inst]"
    by (rule get_object_or_404_Inr)
  then have "inst \<in> set (filter (\<lambda>r. obj_pk r = rid) qs)"
    by simp
  then have "inst \<in> set qs"
    by simp
  ultimately show ?thesis by simp
qed

lemma review_patch_cases:
  "snd (ReviewViewSet_partial_update ck s a tid rid p) = s \<or>
   (\<exists>inst. inst \<in> set (reviews s) \<and>
      (case rp_score p of None \<Rightarrow> True | Some v \<Rightarrow> 1 \<le> v \<and> v \<le> 10) \<and>
      snd (ReviewViewSet_partial_update ck s a tid rid p) =
        s\<lparr>reviews := map (\<lambda>r. if obj_pk r = obj_pk inst then apply_patch inst p else r)
                         (reviews s)\<rparr>)"
proof (cases "ReviewViewSet_get_object PATCH s a tid rid")
  case (Inl e)
  then show ?thesis
    by (simp add: ReviewViewSet_partial_update_def split: option.splits)
next
  case (Inr inst)
  then have "inst \<in> set (reviews s)" by (rule get_object_member)
  with Inr show ?thesis
    by (auto simp: ReviewViewSet_partial_update_def apply_patch_def Let_def
        score_validators_iff split: option.splits)
qed

lemma review_destroy_cases:
  "snd (ReviewViewSet_destroy s a tid rid) = s \<or>
   (\<exists>k. snd (ReviewViewSet_destroy s a tid rid) =
      s\<lparr>reviews := filter (\<lambda>r. obj_pk r \<noteq> k) (reviews s),
        comments := filter (\<lambda>c. review_id c \<noteq> k) (comments s)\<rparr>)"
  by (auto simp: ReviewViewSet_destroy_def split: option.splits sum.splits)

lemma comment_create_frame:
  "reviews (snd (CommentViewSet_create v now s a rid c)) = reviews s \<and>
   next_review_id (snd (CommentViewSet_create v now s a rid c)) = next_review_id s \<and>
   users (snd (CommentViewSet_create v now s a rid c)) = users s"
  by (auto simp: CommentViewSet_create_def CommentViewSet_perform_create_def Let_def
      split: option.splits sum.splits actor.splits)

lemma category_delete_frame:
  "reviews (snd (snd (CategoryViewSet_dispatch_delete s a r))) = reviews s \<and>
   next_review_id (snd (snd (CategoryViewSet_dispatch_delete s a r))) = next_review_id s \<and>
   users (snd (snd (CategoryViewSet_dispatch_delete s a r))) = users s"
proof (cases r)
  case ListRoute
  then show ?thesis
    by (simp add: CategoryViewSet_dispatch_delete_def dispatch_delete_def
        CategoryViewSet_delete_def class_body_delete_def delete_handler_def action_map_def
        ListCreateDeleteViewSet_actions_def split: option.splits)
next
  case (DetailRoute sl)
  then show ?thesis
    by (simp add: CategoryViewSet_dispatch_delete_def dispatch_delete_def
        delete_handler_def action_map_def ListCreateDeleteViewSet_actions_def
        CategoryViewSet_destroy_def delete_category_def split: option.splits sum.splits)
qed

lemma users_frame:
  "users (snd (ReviewViewSet_create ck now s a tid d)) = users s"
  "users (snd (ReviewViewSet_partial_update ck' s a tid rid p)) = users s"
  "users (snd (ReviewViewSet_destroy s a tid rid)) = users s"
  using review_create_cases [of ck now s a tid d] review_patch_cases [of ck' s a tid rid p]
    review_destroy_cases [of s a tid rid]
  by auto

section \<open>Invariants along sequences of requests\<close>

subsection \<open>The scores stay in range\<close>

lemma patch_score_in_range:
  "1 \<le> score r \<and> score r \<le> 10 \<Longrightarrow>
   (case rp_score p of None \<Rightarrow> True | Some v \<Rightarrow> 1 \<le> v \<and> v \<le> 10) \<Longrightarrow>
   1 \<le> score (apply_patch r p) \<and> score (apply_patch r p) \<le> 10"
  by (simp add: apply_patch_def split: option.splits)

lemma step_scores_in_range: "scores_in_range s \<Longrightarrow> scores_in_range (step dep s c)"
proof (cases c)
  case (Signup now d)
  assume "scores_in_range s"
  with Signup show ?thesis
    by (simp add: scores_in_range_def signup_reviews)
next
  case (CreateReview now a tid d)
  assume "scores_in_range s"
  with CreateReview show ?thesis
    using review_create_cases [of "review_checks dep" now s a tid d]
    by (auto simp: scores_in_range_def)
next
  case (PatchReview a tid rid p)
  assume inv: "scores_in_range s"
  from review_patch_cases [of "review_patch_checks dep" s a tid rid p]
  show ?thesis
  proof
    assume "snd (ReviewViewSet_partial_update (review_patch_checks dep) s a tid rid p) = s"
    with PatchReview inv show ?thesis by simp
  next
    assume "\<exists>inst. inst \<in> set (reviews s) \<and>
      (case rp_score p of None \<Rightarrow> True | Some v \<Rightarrow> 1 \<le> v \<and> v \<le> 10) \<and>
      snd (ReviewViewSet_partial_update (review_patch_checks dep) s a tid rid p) =
        s\<lparr>reviews := map (\<lambda>r. if obj_pk r = obj_pk inst then apply_patch inst p else r)
                         (reviews s)\<rparr>"
    then obtain inst where i: "inst \<in> set (reviews s)"
      and v: "case rp_score p of None \<Rightarrow> True | Some v \<Rightarrow> 1 \<le> v \<and> v \<le> 10"
      and e: "snd (ReviewViewSet_partial_update (review_patch_checks dep) s a tid rid p) =
        s\<lparr>reviews := map (\<lambda>r. if obj_pk r = obj_pk inst then apply_patch inst p else r)
                         (reviews s)\<rparr>"
      by blast
    from inv i have "1 \<le> score inst \<and> score inst \<le> 10"
      by (simp add: scores_in_range_def list_all_iff)
    then have "1 \<le> score (apply_patch inst p) \<and> score (apply_patch inst p) \<le> 10"
      using v by (rule patch_score_in_range)
    with inv PatchReview e show ?thesis
      by (auto simp: scores_in_range_def list_all_iff)
  qed
next
  case (DestroyReview a tid rid)
  assume "scores_in_range s"
  with DestroyReview show ?thesis
    using review_destroy_cases [of s a tid rid]
    by (auto simp: scores_in_range_def list_all_iff)
next
  case (CreateComment now a rid d)
  assume "scores_in_range s"
  with CreateComment show ?thesis
    by (simp add: scores_in_range_def comment_create_frame)
next
  case (DeleteCategory a r)
  assume "scores_in_range s"
  with DeleteCategory show ?thesis
    by (simp add: scores_in_range_def category_delete_frame)
qed

lemma run_scores_in_range: "scores_in_range s \<Longrightarrow> scores_in_range (run dep s cs)"
  unfolding run_def
  by (induction cs arbitrary: s) (simp_all add: step_scores_in_range)

subsection \<open>Keys and the unique constraint\<close>

lemma patch_keeps_columns:
  "obj_pk (apply_patch r p) = obj_pk r" "title_id (apply_patch r p) = title_id r"
  "author_id (apply_patch r p) = author_id r"
  by (simp_all add: apply_patch_def)

lemma patch_map_columns:
  assumes "distinct (map obj_pk rs)" "inst \<in> set rs"
  shows "map obj_pk (map (\<lambda>r. if obj_pk r = obj_pk inst then apply_patch inst p else r) rs) =
           map obj_pk rs"
    and "map (\<lambda>r. (title_id r, author_id r))
           (map (\<lambda>r. if obj_pk r = obj_pk inst then apply_patch inst p else r) rs) =
         map (\<lambda>r. (title_id r, author_id r)) rs"
proof -
  have same: "r = inst" if "r \<in> set rs" "obj_pk r = obj_pk inst" for r
    using assms that by (meson distinct_map inj_onD)
  show "map obj_pk (map (\<lambda>r. if obj_pk r = obj_pk inst then apply_patch inst p else r) rs) =
           map obj_pk rs"
    by (simp add: patch_keeps_columns)
  show "map (\<lambda>r. (title_id r, author_id r))
           (map (\<lambda>r. if obj_pk r = obj_pk inst then apply_patch inst p else r) rs) =
         map (\<lambda>r. (title_id r, author_id r)) rs"
    using same by (auto simp: patch_keeps_columns)
qed

lemma step_review_table_ok: "review_table_ok s \<Longrightarrow> review_table_ok (step dep s c)"
proof (cases c)
  case (Signup now d)
  assume "review_table_ok s"
  with Signup show ?thesis
    by (simp add: review_table_ok_def review_keys_ok_def unique_author_review_def signup_reviews)
next
  case (CreateReview now a tid d)
  assume inv: "review_table_ok s"
  from review_create_cases [of "review_checks dep" now s a tid d]
  show ?thesis
  proof
    assume "snd (ReviewViewSet_create (review_checks dep) now s a tid d) = s"
    with CreateReview inv show ?thesis by simp
  next
    assume "\<exists>au t. snd (ReviewViewSet_create (review_checks dep) now s a tid d) =
       s\<lparr>reviews := reviews s @ [\<lparr>obj_pk = next_review_id s, author_id = au,
            text_body = rd_text d, pub_date = now, title_id = t, score = rd_score d\<rparr>],
         next_review_id := Suc (next_review_id s)\<rparr> \<and>
     \<not> list_ex (\<lambda>r. title_id r = t \<and> author_id r = au) (reviews s) \<and>
     1 \<le> rd_score d \<and> rd_score d \<le> 10"
    then obtain au t where e: "snd (ReviewViewSet_create (review_checks dep) now s a tid d) =
       s\<lparr>reviews := reviews s @ [\<lparr>obj_pk = next_review_id s, author_id = au,
            text_body = rd_text d, pub_date = now, title_id = t, score = rd_score d\<rparr>],
         next_review_id := Suc (next_review_id s)\<rparr>"
      and n: "\<not> list_ex (\<lambda>r. title_id r = t \<and> author_id r = au) (reviews s)"
      by blast
    from inv have lt: "\<forall>r \<in> set (reviews s). obj_pk r < next_review_id s"
      by (simp add: review_table_ok_def review_keys_ok_def list_all_iff)
    then have fresh: "next_review_id s \<notin> obj_pk ` set (reviews s)"
      by auto
    from n have new: "(t, au) \<notin> (\<lambda>r. (title_id r, author_id r)) ` set (reviews s)"
      by (auto simp: list_ex_iff)
    from inv lt fresh new CreateReview e show ?thesis
      by (auto simp: review_table_ok_def review_keys_ok_def unique_author_review_def
          list_all_iff less_Suc_eq)
  qed
next
  case (PatchReview a tid rid p)
  assume inv: "review_table_ok s"
  from review_patch_cases [of "review_patch_checks dep" s a tid rid p]
  show ?thesis
  proof
    assume "snd (ReviewViewSet_partial_update (review_patch_checks dep) s a tid rid p) = s"
    with PatchReview inv show ?thesis by simp
  next
    assume "\<exists>inst. inst \<in> set (reviews s) \<and>
      (case rp_score p of None \<Rightarrow> True | Some v \<Rightarrow> 1 \<le> v \<and> v \<le> 10) \<and>
      snd (ReviewViewSet_partial_update (review_patch_checks dep) s a tid rid p) =
        s\<lparr>reviews := map (\<lambda>r. if obj_pk r = obj_pk inst then apply_patch inst p else r)
                         (reviews s)\<rparr>"
    then obtain inst where i: "inst \<in> set (reviews s)"
      and e: "snd (ReviewViewSet_partial_update (review_patch_checks dep) s a tid rid p) =
        s\<lparr>reviews := map (\<lambda>r. if obj_pk r = obj_pk inst then apply_patch inst p else r)
                         (reviews s)\<rparr>"
      by blast
    from inv have d: "distinct (map obj_pk (reviews s))"
      by (simp add: review_table_ok_def review_keys_ok_def)
    from PatchReview e have r': "reviews (step dep s c) =
        map (\<lambda>r. if obj_pk r = obj_pk inst then apply_patch inst p else r) (reviews s)"
      and n': "next_review_id (step dep s c) = next_review_id s"
      by simp_all
    have k: "map obj_pk (reviews (step dep s c)) = map obj_pk (reviews s)"
      unfolding r' by (rule patch_map_columns(1) [OF d i])
    have u: "map (\<lambda>r. (title_id r, author_id r)) (reviews (step dep s c)) =
        map (\<lambda>r. (title_id r, author_id r)) (reviews s)"
      unfolding r' by (rule patch_map_columns(2) [OF d i])
    have lt: "list_all (\<lambda>r. obj_pk r < next_review_id (step dep s c)) (reviews (step dep s c))"
      unfolding r' n'
      using inv by (auto simp: review_table_ok_def review_keys_ok_def list_all_iff
          patch_keeps_columns)
    show ?thesis
      unfolding review_table_ok_def review_keys_ok_def unique_author_review_def k u
      using inv lt by (simp add: review_table_ok_def review_keys_ok_def unique_author_review_def)
  qed
next
  case (DestroyReview a tid rid)
  assume "review_table_ok s"
  with DestroyReview show ?thesis
    using review_destroy_cases [of s a tid rid]
    by (auto simp: review_table_ok_def review_keys_ok_def unique_author_review_def
        list_all_iff distinct_map_filter)
next
  case (CreateComment now a rid d)
  assume "review_table_ok s"
  with CreateComment show ?thesis
    by (simp add: review_table_ok_def review_keys_ok_def unique_author_review_def
        comment_create_frame)
next
  case (DeleteCategory a r)
  assume "review_table_ok s"
  with DeleteCategory show ?thesis
    by (simp add: review_table_ok_def review_keys_ok_def unique_author_review_def
        category_delete_frame)
qed

lemma run_review_table_ok: "review_table_ok s \<Longrightarrow> review_table_ok (run dep s cs)"
  unfolding run_def
  by (induction cs arbitrary: s) (simp_all add: step_review_table_ok)

subsection \<open>The user table\<close>

lemma step_user_table_ok: "user_table_ok s \<Longrightarrow> user_table_ok (step dep s c)"
proof (cases c)
  case (Signup now d)
  assume inv: "user_table_ok s"
  from signup_users [of "registration_is_valid dep" "make_token dep" "host_user dep" now s d]
  show ?thesis
  proof
    assume "users (snd (UserCreation_post (registration_is_valid dep) (make_token dep)
      (host_user dep) now s d)) = users s"
    with Signup inv show ?thesis
      by (simp add: user_table_ok_def usernames_unique_def codes_default_def)
  next
    assume "users (snd (UserCreation_post (registration_is_valid dep) (make_token dep)
        (host_user dep) now s d)) =
      users s @ [new_user (next_user_id s) (reg_username d) (reg_email d)] \<and>
      \<not> list_ex (\<lambda>u. username u = reg_username d \<or> email u = reg_email d) (users s)"
    then have e: "users (step dep s c) =
        users s @ [new_user (next_user_id s) (reg_username d) (reg_email d)]"
      and n: "\<not> list_ex (\<lambda>u. username u = reg_username d \<or> email u = reg_email d) (users s)"
      using Signup by simp_all
    from n have "reg_username d \<notin> username ` set (users s)"
      by (auto simp: list_ex_iff)
    with inv e show ?thesis
      by (simp add: user_table_ok_def usernames_unique_def codes_default_def new_user_def)
  qed
next
  case (CreateReview now a tid d)
  assume "user_table_ok s"
  with CreateReview show ?thesis
    by (simp add: user_table_ok_def usernames_unique_def codes_default_def users_frame)
next
  case (PatchReview a tid rid p)
  assume "user_table_ok s"
  with PatchReview show ?thesis
    by (simp add: user_table_ok_def usernames_unique_def codes_default_def users_frame)
next
  case (DestroyReview a tid rid)
  assume "user_table_ok s"
  with DestroyReview show ?thesis
    by (simp add: user_table_ok_def usernames_unique_def codes_default_def users_frame)
next
  case (CreateComment now a rid d)
  assume "user_table_ok s"
  with CreateComment show ?thesis
    by (simp add: user_table_ok_def usernames_unique_def codes_default_def comment_create_frame)
next
  case (DeleteCategory a r)
  assume "user_table_ok s"
  with DeleteCategory show ?thesis
    by (simp add: user_table_ok_def usernames_unique_def codes_default_def category_delete_frame)
qed

lemma run_user_table_ok: "user_table_ok s \<Longrightarrow> user_table_ok (run dep s cs)"
  unfolding run_def
  by (induction cs arbitrary: s) (simp_all add: step_user_table_ok)

section \<open>One review per title and author\<close>

lemma no_conflict_status: "exc_status e \<noteq> 409"
  by (cases e) simp_all

lemma stored_review_blocks_create:
  assumes x: "x \<in> set (reviews s)" "title_id x = tid" "author_id x = user_id u"
    and u: "filter (\<lambda>u. username u = actor_username a) (users s) = [u]"
  shows "\<exists>e. ReviewViewSet_perform_create now s a tid d = (Inl e, s)"
    and "tid \<le> MAX_DB_INTEGER \<Longrightarrow> filter (\<lambda>t. title_pk t = tid) (titles s) = [t] \<Longrightarrow>
         ReviewViewSet_perform_create now s a tid d = (Inl IntegrityError, s)"
proof -
  have dup: "list_ex (\<lambda>r. title_id r = tid \<and> author_id r = user_id u) (reviews s)"
    using x by (auto simp: list_ex_iff)
  have sv: "save_review now s (user_id u) tid d = (Inl IntegrityError, s)"
    using dup by (simp add: save_review_def)
  show c: "ReviewViewSet_perform_create now s a tid d = (Inl IntegrityError, s)"
    if m: "tid \<le> MAX_DB_INTEGER" and t: "filter (\<lambda>t. title_pk t = tid) (titles s) = [t]"
  proof -
    from t have "t \<in> set (filter (\<lambda>t. title_pk t = tid) (titles s))"
      by simp
    then have "title_pk t = tid"
      by simp
    with m t u sv show ?thesis
      by (simp add: ReviewViewSet_perform_create_def)
  qed
  show "\<exists>e. ReviewViewSet_perform_create now s a tid d = (Inl e, s)"
  proof (cases "get_object_or_404 (filter (\<lambda>t. title_pk t = tid) (titles s))")
    case (Inl e)
    then show ?thesis
      by (simp add: ReviewViewSet_perform_create_def)
  next
    case (Inr t0)
    then have "filter (\<lambda>t. title_pk t = tid) (titles s) = [t0]"
      by (rule get_object_or_404_Inr)
    then have "t0 \<in> set (filter (\<lambda>t. title_pk t = tid) (titles s))"
      by simp
    then have "title_pk t0 = tid"
      by simp
    with Inr u sv show ?thesis
      by (simp add: ReviewViewSet_perform_create_def)
  qed
qed

lemma stored_review_blocks_request:
  assumes x: "x \<in> set (reviews s)" "title_id x = tid" "author_id x = user_id u"
    and u: "filter (\<lambda>u. username u = actor_username a) (users s) = [u]"
  shows "\<exists>e. ReviewViewSet_create ck now s a tid d = (Inl e, s) \<and> exc_status e \<noteq> 409"
    and "tid \<le> MAX_DB_INTEGER \<Longrightarrow> filter (\<lambda>t. title_pk t = tid) (titles s) = [t] \<Longrightarrow>
         is_authenticated a \<Longrightarrow> run_validators score_validators (rd_score d) \<Longrightarrow> ck s d \<Longrightarrow>
         ReviewViewSet_create ck now s a tid d = (Inl IntegrityError, s)"
proof -
  from stored_review_blocks_create(1) [OF x u]
  obtain e where "ReviewViewSet_perform_create now s a tid d = (Inl e, s)"
    by blast
  then have "\<exists>e. ReviewViewSet_create ck now s a tid d = (Inl e, s)"
    by (simp add: ReviewViewSet_create_def split: option.splits)
  then show "\<exists>e. ReviewViewSet_create ck now s a tid d = (Inl e, s) \<and> exc_status e \<noteq> 409"
    using no_conflict_status by blast
  show "ReviewViewSet_create ck now s a tid d = (Inl IntegrityError, s)"
    if "tid \<le> MAX_DB_INTEGER" "filter (\<lambda>t. title_pk t = tid) (titles s) = [t]"
      "is_authenticated a" "run_validators score_validators (rd_score d)" "ck s d"
    using that stored_review_blocks_create(2) [OF x u that(1,2)]
    by (simp add: ReviewViewSet_create_def check_permissions_def)
qed

lemma second_create_conflict:
  assumes "ReviewViewSet_perform_create now s a tid d = (Inr r, s')"
  shows "ReviewViewSet_perform_create now' s' a tid d' = (Inl IntegrityError, s')"
proof -
  from perform_create_success [OF assms] obtain t :: title and u :: user where
    m: "tid \<le> MAX_DB_INTEGER"
    and t: "filter (\<lambda>t. title_pk t = tid) (titles s) = [t]"
    and u: "filter (\<lambda>u. username u = actor_username a) (users s) = [u]"
    and sv: "save_review now s (user_id u) tid d = (Inr r, s')"
    by blast
  from sv have s': "s' = s\<lparr>reviews := reviews s @ [r], next_review_id := Suc (next_review_id s)\<rparr>"
    and r: "title_id r = tid" "author_id r = user_id u"
    by (auto simp: save_review_def Let_def split: if_splits)
  from s' have same: "titles s' = titles s" "users s' = users s" "r \<in> set (reviews s')"
    by simp_all
  show ?thesis
    by (rule stored_review_blocks_create(2) [OF same(3) r])
       (simp_all add: same t u m)
qed

lemma second_create_request_fails:
  assumes "ReviewViewSet_perform_create now s a tid d = (Inr r, s')"
  shows "\<exists>e. ReviewViewSet_create ck now' s' a tid d' = (Inl e, s')"
  using second_create_conflict [OF assms, of now' d']
  by (simp add: ReviewViewSet_create_def split: option.splits)

lemma distinct_key_count:
  "distinct (map f xs) \<Longrightarrow> length (filter (\<lambda>x. f x = k) xs) \<le> 1"
proof (induction xs)
  case Nil
  then show ?case by simp
next
  case (Cons y ys)
  show ?case
  proof (cases "f y = k")
    case True
    with Cons.prems have "\<forall>z \<in> set ys. f z \<noteq> k"
      by (auto simp: image_iff)
    then have "filter (\<lambda>x. f x = k) ys = []"
      by (simp add: filter_empty_conv)
    with True show ?thesis by simp
  next
    case False
    with Cons show ?thesis by simp
  qed
qed

lemma run_one_review_per_pair:
  assumes "review_keys_ok s" "unique_author_review s"
  shows "length (filter (\<lambda>r. title_id r = t \<and> author_id r = au) (reviews (run dep s cs))) \<le> 1"
proof -
  from assms have "review_table_ok s"
    by (simp add: review_table_ok_def)
  then have "review_table_ok (run dep s cs)"
    by (rule run_review_table_ok)
  then have "distinct (map (\<lambda>r. (title_id r, author_id r)) (reviews (run dep s cs)))"
    by (simp add: review_table_ok_def unique_author_review_def)
  from distinct_key_count [OF this, of "(t, au)"] show ?thesis
    by simp
qed

lemma author_may_update:
  assumes k: "review_keys_ok s" and r: "r \<in> set (reviews s)"
    and t: "filter (\<lambda>t. title_pk t = title_id r) (titles s) = [t]"
    and u: "user_id u = author_id r"
    and v: "case rp_score p of None \<Rightarrow> True | Some v \<Rightarrow> 1 \<le> v \<and> v \<le> 10"
    and c: "ck s p"
    and m: "title_id r \<le> MAX_DB_INTEGER" "obj_pk r \<le> MAX_DB_INTEGER"
  shows "ReviewViewSet_partial_update ck s (Authenticated u) (title_id r) (obj_pk r) p =
    (Inr (apply_patch r p),
     s\<lparr>reviews := map (\<lambda>x. if obj_pk x = obj_pk r then apply_patch r p else x) (reviews s)\<rparr>)"
proof -
  from t have "t \<in> set (filter (\<lambda>t. title_pk t = title_id r) (titles s))"
    by simp
  then have tt: "title_pk t = title_id r"
    by simp
  have q: "ReviewViewSet_get_queryset s (title_id r) =
      Inr (filter (\<lambda>x. title_id x = title_id r) (reviews s))"
    using m by (simp add: ReviewViewSet_get_queryset_def t tt)
  from k have d: "distinct (map obj_pk (reviews s))"
    by (simp add: review_keys_ok_def)
  have "filter (\<lambda>x. title_id x = title_id r \<and> obj_pk x = obj_pk r) (reviews s) =
      filter (\<lambda>x. title_id x = title_id r) (filter (\<lambda>x. obj_pk x = obj_pk r) (reviews s))"
    by (simp add: conj_commute)
  also have "\<dots> = filter (\<lambda>x. title_id x = title_id r) [r]"
    by (simp only: filter_key_single [OF d r])
  finally have f: "filter (\<lambda>x. title_id x = title_id r \<and> obj_pk x = obj_pk r) (reviews s) = [r]"
    by simp
  have o: "ReviewViewSet_get_object PATCH s (Authenticated u) (title_id r) (obj_pk r) = Inr r"
    using m by (simp add: ReviewViewSet_get_object_def q f check_object_permissions_def u)
  have pm: "check_permissions (permission_classes ReviewViewSet) PATCH (Authenticated u) = None"
    by (simp add: check_permissions_def)
  have vv: "(case rp_score p of None \<Rightarrow> True | Some v \<Rightarrow> run_validators score_validators v)"
    using v by (simp add: score_validators_iff split: option.splits)
  show ?thesis
    by (simp add: ReviewViewSet_partial_update_def pm o vv c apply_patch_def Let_def
        del: permission_classes.simps)
qed

text \<open>
  C4, as the code has it. While a review by an author for a title is stored, a
  further create by that author for that title never succeeds and leaves the
  state as it was: \<open>perform_create\<close> ends in an error, the create request ends in
  an error whose status is not 409, and when the title is found the error of
  \<open>perform_create\<close> is the \<open>IntegrityError\<close> of the constraint
  \<open>unique_author_review\<close>, which also ends the request of an authenticated actor
  with an accepted payload. In particular the create that follows a successful
  one ends so. From a state whose review table respects its keys and the
  constraint, every sequence of requests leads to a state with at most one
  review per (title, author). Updating the stored review by its author with an
  acceptable payload succeeds and writes the given fields to that row.
\<close>

theorem c4_unique_review:
  "(y \<in> set (reviews s) \<and> title_id y = tid \<and> author_id y = user_id w \<and>
    filter (\<lambda>u. username u = actor_username a) (users s) = [w] \<longrightarrow>
      (\<exists>e. ReviewViewSet_perform_create now s a tid d = (Inl e, s)) \<and>
      (\<exists>e. ReviewViewSet_create ck now s a tid d = (Inl e, s) \<and> exc_status e \<noteq> 409) \<and>
      (tid \<le> MAX_DB_INTEGER \<and> filter (\<lambda>t. title_pk t = tid) (titles s) = [ty] \<longrightarrow>
         ReviewViewSet_perform_create now s a tid d = (Inl IntegrityError, s) \<and>
         (is_authenticated a \<and> run_validators score_validators (rd_score d) \<and> ck s d \<longrightarrow>
            ReviewViewSet_create ck now s a tid d = (Inl IntegrityError, s)))) \<and>
   (ReviewViewSet_perform_create now s a tid d = (Inr r, s') \<longrightarrow>
      ReviewViewSet_perform_create now' s' a tid d' = (Inl IntegrityError, s') \<and>
      (\<exists>e. ReviewViewSet_create ck now' s' a tid d' = (Inl e, s'))) \<and>
   (review_keys_ok s \<and> unique_author_review s \<longrightarrow>
      unique_author_review (run dep s cs) \<and>
      length (filter (\<lambda>x. title_id x = t \<and> author_id x = au) (reviews (run dep s cs))) \<le> 1) \<and>
   (review_keys_ok s \<and> x \<in> set (reviews s) \<and>
    filter (\<lambda>t. title_pk t = title_id x) (titles s) = [tt] \<and> user_id u = author_id x \<and>
    title_id x \<le> MAX_DB_INTEGER \<and> obj_pk x \<le> MAX_DB_INTEGER \<and>
    (case rp_score p of None \<Rightarrow> True | Some v \<Rightarrow> 1 \<le> v \<and> v \<le> 10) \<and> ck' s p \<longrightarrow>
      ReviewViewSet_partial_update ck' s (Authenticated u) (title_id x) (obj_pk x) p =
        (Inr (apply_patch x p),
         s\<lparr>reviews := map (\<lambda>y. if obj_pk y = obj_pk x then apply_patch x p else y)
                          (reviews s)\<rparr>))"
proof (intro conjI impI)
  assume h: "y \<in> set (reviews s) \<and> title_id y = tid \<and> author_id y = user_id w \<and>
    filter (\<lambda>u. username u = actor_username a) (users s) = [w]"
  then have y: "y \<in> set (reviews s)" "title_id y = tid" "author_id y = user_id w"
    and w: "filter (\<lambda>u. username u = actor_username a) (users s) = [w]"
    by simp_all
  show "\<exists>e. ReviewViewSet_perform_create now s a tid d = (Inl e, s)"
    by (rule stored_review_blocks_create(1) [OF y w])
  show "\<exists>e. ReviewViewSet_create ck now s a tid d = (Inl e, s) \<and> exc_status e \<noteq> 409"
    by (rule stored_review_blocks_request(1) [OF y w])
  show "ReviewViewSet_perform_create now s a tid d = (Inl IntegrityError, s)"
    if "tid \<le> MAX_DB_INTEGER \<and> filter (\<lambda>t. title_pk t = tid) (titles s) = [ty]"
    using that stored_review_blocks_create(2) [OF y w] by simp
  show "ReviewViewSet_create ck now s a tid d = (Inl IntegrityError, s)"
    if "tid \<le> MAX_DB_INTEGER \<and> filter (\<lambda>t. title_pk t = tid) (titles s) = [ty]"
      "is_authenticated a \<and> run_validators score_validators (rd_score d) \<and> ck s d"
    using that stored_review_blocks_request(2) [OF y w] by simp
next
  assume c: "ReviewViewSet_perform_create now s a tid d = (Inr r, s')"
  show "ReviewViewSet_perform_create now' s' a tid d' = (Inl IntegrityError, s')"
    by (rule second_create_conflict [OF c])
  show "\<exists>e. ReviewViewSet_create ck now' s' a tid d' = (Inl e, s')"
    by (rule second_create_request_fails [OF c])
next
  assume i: "review_keys_ok s \<and> unique_author_review s"
  then have "review_table_ok s"
    by (simp add: review_table_ok_def)
  then have "review_table_ok (run dep s cs)"
    by (rule run_review_table_ok)
  then show "unique_author_review (run dep s cs)"
    by (simp add: review_table_ok_def)
  from i have a: "review_keys_ok s" and b: "unique_author_review s"
    by simp_all
  show "length (filter (\<lambda>x. title_id x = t \<and> author_id x = au)
      (reviews (run dep s cs))) \<le> 1"
    by (rule run_one_review_per_pair [OF a b])
next
  assume "review_keys_ok s \<and> x \<in> set (reviews s) \<and>
    filter (\<lambda>t. title_pk t = title_id x) (titles s) = [tt] \<and> user_id u = author_id x \<and>
    title_id x \<le> MAX_DB_INTEGER \<and> obj_pk x \<le> MAX_DB_INTEGER \<and>
    (case rp_score p of None \<Rightarrow> True | Some v \<Rightarrow> 1 \<le> v \<and> v \<le> 10) \<and> ck' s p"
  then show "ReviewViewSet_partial_update ck' s (Authenticated u) (title_id x) (obj_pk x) p =
        (Inr (apply_patch x p),
         s\<lparr>reviews := map (\<lambda>y. if obj_pk y = obj_pk x then apply_patch x p else y)
                          (reviews s)\<rparr>)"
    by (simp add: author_may_update)
qed

lemma bob_creates_review:
  "ReviewViewSet_perform_create 5 demo_state (Authenticated bob) 1
     \<lparr>rd_text = ''fine'', rd_score = 7\<rparr> = (Inr bob_review, reviewed_state)"
  by (simp add: ReviewViewSet_perform_create_def save_review_def demo_state_def empty_state_def
      solaris_def bob_def root_def new_user_def bob_review_def reviewed_state_def Let_def
      MAX_DB_INTEGER_def)

theorem c4_unique_review_witness:
  "ReviewViewSet_perform_create 5 demo_state (Authenticated bob) 1
     \<lparr>rd_text = ''fine'', rd_score = 7\<rparr> = (Inr bob_review, reviewed_state) \<and>
   ReviewViewSet_perform_create 6 reviewed_state (Authenticated bob) 1
     \<lparr>rd_text = ''again'', rd_score = 9\<rparr> = (Inl IntegrityError, reviewed_state) \<and>
   ReviewViewSet_create (\<lambda>s d. True) 6 reviewed_state (Authenticated bob) 1
     \<lparr>rd_text = ''again'', rd_score = 9\<rparr> = (Inl IntegrityError, reviewed_state) \<and>
   unique_author_review (run demo_deployment reviewed_state
     [CreateReview 6 (Authenticated bob) 1 \<lparr>rd_text = ''again'', rd_score = 9\<rparr>]) \<and>
   ReviewViewSet_partial_update (\<lambda>s p. True) reviewed_state (Authenticated bob) 1 1
     \<lparr>rp_text = None, rp_score = Some 9\<rparr> =
     (Inr (bob_review\<lparr>score := 9\<rparr>), reviewed_state\<lparr>reviews := [bob_review\<lparr>score := 9\<rparr>]\<rparr>)"
proof -
  have k: "review_keys_ok reviewed_state" "unique_author_review reviewed_state"
    by (simp_all add: review_keys_ok_def unique_author_review_def reviewed_state_def
        bob_review_def)
  have m: "bob_review \<in> set (reviews reviewed_state)"
    by (simp add: reviewed_state_def)
  have t: "filter (\<lambda>t. title_pk t = title_id bob_review) (titles reviewed_state) = [solaris]"
    "filter (\<lambda>t. title_pk t = 1) (titles reviewed_state) = [solaris]"
    by (simp_all add: reviewed_state_def demo_state_def empty_state_def solaris_def
        bob_review_def)
  have w: "filter (\<lambda>u. username u = actor_username (Authenticated bob)) (users reviewed_state) =
      [bob]"
    by (simp add: reviewed_state_def demo_state_def empty_state_def bob_def root_def
        new_user_def)
  have u: "user_id bob = 1" "author_id bob_review = 1"
    "title_id bob_review = 1" "obj_pk bob_review = 1"
    by (simp_all add: bob_def new_user_def bob_review_def)
  have p: "apply_patch bob_review \<lparr>rp_text = None, rp_score = Some 9\<rparr> = bob_review\<lparr>score := 9\<rparr>"
    by (simp add: apply_patch_def)
  have r: "reviews reviewed_state = [bob_review]"
    by (simp add: reviewed_state_def)
  have n: "(1::nat) \<le> MAX_DB_INTEGER"
    by (simp add: MAX_DB_INTEGER_def)
  have v: "run_validators score_validators 9"
    by (simp add: score_validators_iff)
  note first = c4_unique_review [where s = demo_state and a = "Authenticated bob" and tid = 1
        and now = 5 and d = "\<lparr>rd_text = ''fine'', rd_score = 7\<rparr>" and r = bob_review
        and s' = reviewed_state and now' = 6
        and d' = "\<lparr>rd_text = ''again'', rd_score = 9\<rparr>", THEN conjunct2, THEN conjunct1]
  note later = c4_unique_review [where s = reviewed_state and a = "Authenticated bob"
        and tid = 1 and now = 6 and d = "\<lparr>rd_text = ''again'', rd_score = 9\<rparr>"
        and ck = "\<lambda>s d. True" and y = bob_review and w = bob and ty = solaris
        and dep = demo_deployment
        and cs = "[CreateReview 6 (Authenticated bob) 1 \<lparr>rd_text = ''again'', rd_score = 9\<rparr>]"
        and x = bob_review and tt = solaris and u = bob
        and p = "\<lparr>rp_text = None, rp_score = Some 9\<rparr>" and ck' = "\<lambda>s p. True"]
  have c1: "ReviewViewSet_perform_create 6 reviewed_state (Authenticated bob) 1
      \<lparr>rd_text = ''again'', rd_score = 9\<rparr> = (Inl IntegrityError, reviewed_state)"
    using first bob_creates_review by simp
  have c2: "ReviewViewSet_create (\<lambda>s d. True) 6 reviewed_state (Authenticated bob) 1
      \<lparr>rd_text = ''again'', rd_score = 9\<rparr> = (Inl IntegrityError, reviewed_state)"
    using later [THEN conjunct1] m u w t n v by simp
  have c3: "unique_author_review (run demo_deployment reviewed_state
      [CreateReview 6 (Authenticated bob) 1 \<lparr>rd_text = ''again'', rd_score = 9\<rparr>])"
    using later [THEN conjunct2, THEN conjunct2, THEN conjunct1] k by simp
  have c4: "ReviewViewSet_partial_update (\<lambda>s p. True) reviewed_state (Authenticated bob) 1 1
      \<lparr>rp_text = None, rp_score = Some 9\<rparr> =
      (Inr (bob_review\<lparr>score := 9\<rparr>), reviewed_state\<lparr>reviews := [bob_review\<lparr>score := 9\<rparr>]\<rparr>)"
    using later [THEN conjunct2, THEN conjunct2, THEN conjunct2] k m t u p r n by simp
  from bob_creates_review c1 c2 c3 c4 show ?thesis
    by simp
qed

text \<open>
  C4 as stated fails: the second create request of the author, authenticated and
  with an accepted payload, ends in the \<open>IntegrityError\<close> of the database, which the
  view does not turn into a conflict answer: its status is 500.
\<close>

theorem c4_counterexample:
  "bob_review \<in> set (reviews reviewed_state) \<and>
   ReviewViewSet_create (\<lambda>s d. True) 6 reviewed_state (Authenticated bob) 1
     \<lparr>rd_text = ''again'', rd_score = 9\<rparr> = (Inl IntegrityError, reviewed_state) \<and>
   exc_status IntegrityError = 500"
  by (simp add: ReviewViewSet_create_def ReviewViewSet_perform_create_def save_review_def
      check_permissions_def score_validators_iff MAX_DB_INTEGER_def reviewed_state_def
      demo_state_def empty_state_def solaris_def bob_def root_def new_user_def bob_review_def)

section \<open>The range of the score\<close>

lemma create_out_of_range:
  assumes "rd_score d < 1 \<or> 10 < rd_score d"
  shows "\<exists>e. ReviewViewSet_create ck now s a tid d = (Inl e, s)"
    and "is_authenticated a \<Longrightarrow> ReviewViewSet_create ck now s a tid d = (Inl ValidationError, s)"
proof -
  from assms have v: "\<not> run_validators score_validators (rd_score d)"
    by (auto simp: score_validators_iff)
  show "\<exists>e. ReviewViewSet_create ck now s a tid d = (Inl e, s)"
    using v by (simp add: ReviewViewSet_create_def split: option.splits)
  show "ReviewViewSet_create ck now s a tid d = (Inl ValidationError, s)" if "is_authenticated a"
    using v that by (simp add: ReviewViewSet_create_def check_permissions_def)
qed

lemma patch_out_of_range:
  assumes "rp_score p = Some v" "v < 1 \<or> 10 < v"
  shows "\<exists>e. ReviewViewSet_partial_update ck s a tid rid p = (Inl e, s)"
    and "is_authenticated a \<Longrightarrow> ReviewViewSet_get_object PATCH s a tid rid = Inr inst \<Longrightarrow>
         ReviewViewSet_partial_update ck s a tid rid p = (Inl ValidationError, s)"
proof -
  from assms have v: "\<not> run_validators score_validators v"
    by (auto simp: score_validators_iff)
  show "\<exists>e. ReviewViewSet_partial_update ck s a tid rid p = (Inl e, s)"
    using v assms(1)
    by (simp add: ReviewViewSet_partial_update_def split: option.splits sum.splits)
  show "ReviewViewSet_partial_update ck s a tid rid p = (Inl ValidationError, s)"
    if "is_authenticated a" "ReviewViewSet_get_object PATCH s a tid rid = Inr inst"
    using v assms(1) that
    by (simp add: ReviewViewSet_partial_update_def check_permissions_def)
qed

lemma title_scores_in_range:
  "scores_in_range s \<Longrightarrow> list_all (\<lambda>v. 1 \<le> v \<and> v \<le> 10) (title_scores s tid)"
  by (auto simp: scores_in_range_def title_scores_def list_all_iff)

text \<open>
  C6. From a state whose stored reviews all have a score from 1 to 10, every
  sequence of requests leads to such a state, so the scores the rating of any
  title is computed from are within 1 and 10. A create that supplies a score
  below 1 or above 10 ends in an error and stores nothing, and for an
  authenticated actor the error is the \<open>ValidationError\<close> of the score validators;
  an update that supplies such a score ends in an error and stores nothing, and
  once the actor is authenticated and the addressed review is found and may be
  written by the actor the error is that \<open>ValidationError\<close>.
\<close>

theorem c6_score_range:
  "(scores_in_range s \<longrightarrow>
      scores_in_range (run dep s cs) \<and>
      list_all (\<lambda>v. 1 \<le> v \<and> v \<le> 10) (title_scores (run dep s cs) t)) \<and>
   (rd_score d < 1 \<or> 10 < rd_score d \<longrightarrow>
      (\<exists>e. ReviewViewSet_create ck now s a tid d = (Inl e, s)) \<and>
      (is_authenticated a \<longrightarrow>
         ReviewViewSet_create ck now s a tid d = (Inl ValidationError, s))) \<and>
   (rp_score p = Some v \<and> (v < 1 \<or> 10 < v) \<longrightarrow>
      (\<exists>e. ReviewViewSet_partial_update ck' s a tid rid p = (Inl e, s)) \<and>
      (is_authenticated a \<and> ReviewViewSet_get_object PATCH s a tid rid = Inr inst \<longrightarrow>
         ReviewViewSet_partial_update ck' s a tid rid p = (Inl ValidationError, s)))"
proof (intro conjI impI)
  assume i: "scores_in_range s"
  then show r: "scores_in_range (run dep s cs)"
    by (rule run_scores_in_range)
  then show "list_all (\<lambda>v. 1 \<le> v \<and> v \<le> 10) (title_scores (run dep s cs) t)"
    by (rule title_scores_in_range)
next
  assume o: "rd_score d < 1 \<or> 10 < rd_score d"
  then show "\<exists>e. ReviewViewSet_create ck now s a tid d = (Inl e, s)"
    by (rule create_out_of_range(1))
  show "ReviewViewSet_create ck now s a tid d = (Inl ValidationError, s)" if "is_authenticated a"
    using o that by (rule create_out_of_range(2))
next
  assume o: "rp_score p = Some v \<and> (v < 1 \<or> 10 < v)"
  then show "\<exists>e. ReviewViewSet_partial_update ck' s a tid rid p = (Inl e, s)"
    by (simp add: patch_out_of_range(1))
  show "ReviewViewSet_partial_update ck' s a tid rid p = (Inl ValidationError, s)"
    if "is_authenticated a \<and> ReviewViewSet_get_object PATCH s a tid rid = Inr inst"
    using o that by (simp add: patch_out_of_range(2))
qed

theorem c6_score_range_witness:
  "scores_in_range (run demo_deployment reviewed_state
     [PatchReview (Authenticated bob) 1 1 \<lparr>rp_text = None, rp_score = Some 3\<rparr>,
      CreateReview 8 (Authenticated root) 1 \<lparr>rd_text = ''top'', rd_score = 11\<rparr>]) \<and>
   ReviewViewSet_create (\<lambda>s d. True) 8 reviewed_state (Authenticated root) 1
     \<lparr>rd_text = ''top'', rd_score = 11\<rparr> = (Inl ValidationError, reviewed_state) \<and>
   ReviewViewSet_partial_update (\<lambda>s p. True) reviewed_state (Authenticated bob) 1 1
     \<lparr>rp_text = None, rp_score = Some 0\<rparr> = (Inl ValidationError, reviewed_state)"
proof -
  have i: "scores_in_range reviewed_state"
    by (simp add: scores_in_range_def reviewed_state_def bob_review_def)
  have g: "ReviewViewSet_get_object PATCH reviewed_state (Authenticated bob) 1 1 = Inr bob_review"
    by (simp add: ReviewViewSet_get_object_def ReviewViewSet_get_queryset_def reviewed_state_def
        demo_state_def empty_state_def solaris_def bob_review_def check_object_permissions_def
        bob_def new_user_def MAX_DB_INTEGER_def)
  show ?thesis
    using c6_score_range [where s = reviewed_state and dep = demo_deployment
        and cs = "[PatchReview (Authenticated bob) 1 1 \<lparr>rp_text = None, rp_score = Some 3\<rparr>,
          CreateReview 8 (Authenticated root) 1 \<lparr>rd_text = ''top'', rd_score = 11\<rparr>]"
        and d = "\<lparr>rd_text = ''top'', rd_score = 11\<rparr>" and ck = "\<lambda>s d. True" and now = 8
        and a = "Authenticated root" and tid = 1]
      c6_score_range [where s = reviewed_state and a = "Authenticated bob" and tid = 1
        and rid = 1 and p = "\<lparr>rp_text = None, rp_score = Some 0\<rparr>" and v = 0
        and ck' = "\<lambda>s p. True" and inst = bob_review]
      i g
    by simp
qed

section \<open>The default confirmation code\<close>

lemma stored_user_lookup:
  assumes "usernames_unique s" "u \<in> set (users s)"
  shows "filter (\<lambda>v. username v = username u) (users s) = [u]"
  using assms by (simp add: usernames_unique_def filter_key_single)

text \<open>
  C9. The row a sign-up inserts has the stored code \<open>not defined yet\<close>, the default
  of the field. From a state with unique user names in which every stored code
  is that default, every sequence of requests leads to a state in which every
  stored user still has it, and an accepted token request with the user's name
  and the string \<open>not defined yet\<close> is answered 201 with the user's access token.
\<close>

theorem c9_default_code:
  assumes "usernames_unique s" and "codes_default s"
    and "u \<in> set (users (run dep s cs))"
    and "is_valid d" and "tc_username d = username u"
    and "tc_confirmation_code d = ''not defined yet''"
  shows "confirmation_code (new_user i n m) = ''not defined yet'' \<and>
         confirmation_code u = ''not defined yet'' \<and>
         JWTTokenConfirmation_post is_valid access_token (run dep s cs) d =
           Inr \<lparr>status = 201, data = Dict [(jwt_key, access_token u)]\<rparr>"
proof -
  from assms(1,2) have "user_table_ok s"
    by (simp add: user_table_ok_def)
  then have ok: "user_table_ok (run dep s cs)"
    by (rule run_user_table_ok)
  then have c: "confirmation_code u = ''not defined yet''"
    using assms(3) by (simp add: user_table_ok_def codes_default_def list_all_iff)
  from ok have "usernames_unique (run dep s cs)"
    by (simp add: user_table_ok_def)
  then have f: "filter (\<lambda>v. username v = username u) (users (run dep s cs)) = [u]"
    using assms(3) by (rule stored_user_lookup)
  show ?thesis
    using c f assms(4,5,6)
    by (simp add: JWTTokenConfirmation_post_def new_user_def)
qed

theorem c9_default_code_witness:
  "confirmation_code bob = ''not defined yet'' \<and>
   JWTTokenConfirmation_post (\<lambda>d. True) (\<lambda>u. ''t-'' @ username u)
     (run demo_deployment empty_state [Signup 1 bob_registration])
     \<lparr>tc_username = ''bob'', tc_confirmation_code = ''not defined yet''\<rparr> =
     Inr \<lparr>status = 201, data = Dict [(jwt_key, ''t-bob'')]\<rparr>"
proof -
  have e: "usernames_unique empty_state" "codes_default empty_state"
    by (simp_all add: usernames_unique_def codes_default_def empty_state_def)
  have m: "bob \<in> set (users (run demo_deployment empty_state [Signup 1 bob_registration]))"
    by (simp add: run_def demo_deployment_def first_signup)
  have n: "username bob = ''bob''"
    by (simp add: bob_def new_user_def)
  show ?thesis
    using c9_default_code [OF e m, where is_valid = "\<lambda>d. True"
        and d = "\<lparr>tc_username = ''bob'', tc_confirmation_code = ''not defined yet''\<rparr>"
        and access_token = "\<lambda>u. ''t-'' @ username u"] n
    by simp
qed

section \<open>The rating of a title\<close>

lemma py_round_nearest: "\<bar>of_int (py_round x) - x\<bar> \<le> 1 / 2"
proof -
  have lo: "of_int \<lfloor>x\<rfloor> \<le> x" and hi: "x < of_int \<lfloor>x\<rfloor> + 1"
    by linarith+
  show ?thesis
    using lo hi by (auto simp: py_round_def Let_def abs_le_iff)
qed

lemma average_rating_None:
  "(average_rating s tid = None) = (\<forall>r \<in> set (reviews s). title_id r \<noteq> tid)"
proof -
  have "(title_scores s tid = []) = (\<forall>r \<in> set (reviews s). title_id r \<noteq> tid)"
    by (simp add: title_scores_def filter_empty_conv)
  moreover have "(average_rating s tid = None) = (title_scores s tid = [])"
    by (simp add: average_rating_def split: list.splits)
  ultimately show ?thesis by simp
qed

lemma average_rating_Some:
  "title_scores s tid \<noteq> [] \<Longrightarrow>
   average_rating s tid = Some (py_round (mean (title_scores s tid)))"
  by (simp add: average_rating_def split: list.splits)

lemma created_review_scores:
  assumes "ReviewViewSet_perform_create now s a tid d = (Inr r, s')"
  shows "title_scores s' tid = title_scores s tid @ [rd_score d]"
proof -
  from perform_create_success [OF assms] obtain u :: user where
    "save_review now s (user_id u) tid d = (Inr r, s')"
    by blast
  then have "reviews s' = reviews s @ [r]" "title_id r = tid" "score r = rd_score d"
    by (auto simp: save_review_def Let_def split: if_splits)
  then show ?thesis
    by (simp add: title_scores_def)
qed

text \<open>
  C5. The rating of a title is absent exactly when no stored review has the
  title's key. When there are such reviews it is the rounded mean of their
  scores, an integer at most one half away from the exact mean. It is computed
  from the reviews stored at the time of the read: right after a create has
  stored a review for the title, the rating is the rounded mean of the earlier
  scores and the new one.
\<close>

theorem c5_average_rating:
  "(average_rating s tid = None) = (\<forall>r \<in> set (reviews s). title_id r \<noteq> tid) \<and>
   (title_scores s tid \<noteq> [] \<longrightarrow>
      average_rating s tid = Some (py_round (mean (title_scores s tid))) \<and>
      \<bar>of_int (py_round (mean (title_scores s tid))) - mean (title_scores s tid)\<bar> \<le> 1 / 2) \<and>
   (ReviewViewSet_perform_create now s a tid d = (Inr r, s') \<longrightarrow>
      average_rating s' tid = Some (py_round (mean (title_scores s tid @ [rd_score d]))))"
proof (intro conjI impI)
  show "(average_rating s tid = None) = (\<forall>r \<in> set (reviews s). title_id r \<noteq> tid)"
    by (rule average_rating_None)
  show "average_rating s tid = Some (py_round (mean (title_scores s tid)))"
    if "title_scores s tid \<noteq> []"
    using that by (rule average_rating_Some)
  show "\<bar>of_int (py_round (mean (title_scores s tid))) - mean (title_scores s tid)\<bar> \<le> 1 / 2"
    by (rule py_round_nearest)
  show "average_rating s' tid = Some (py_round (mean (title_scores s tid @ [rd_score d])))"
    if c: "ReviewViewSet_perform_create now s a tid d = (Inr r, s')"
  proof -
    have e: "title_scores s' tid = title_scores s tid @ [rd_score d]"
      using c by (rule created_review_scores)
    then have "title_scores s' tid \<noteq> []"
      by simp
    then show ?thesis
      unfolding e [symmetric] by (rule average_rating_Some)
  qed
qed

lemma root_creates_review:
  "ReviewViewSet_perform_create 9 reviewed_state (Authenticated root) 1
     \<lparr>rd_text = ''slow'', rd_score = 6\<rparr> =
   (Inr root_review, reviewed_state\<lparr>reviews := [bob_review, root_review], next_review_id := 3\<rparr>)"
  by (simp add: ReviewViewSet_perform_create_def save_review_def reviewed_state_def
      demo_state_def empty_state_def solaris_def bob_def root_def new_user_def bob_review_def
      root_review_def Let_def MAX_DB_INTEGER_def)

lemma example_scores:
  "title_scores reviewed_state 1 = [7]" "title_scores demo_state 1 = []"
  by (simp_all add: title_scores_def reviewed_state_def demo_state_def empty_state_def
      bob_review_def)

lemma example_floor: "\<lfloor>13 / 2 :: rat\<rfloor> = 6" "\<lfloor>15 / 2 :: rat\<rfloor> = 7"
  by linarith+

lemma example_rounding: "py_round (mean [7]) = 7" "py_round (mean [7, 6]) = 6"
  "py_round (mean [7, 8]) = 8"
  by (simp_all add: py_round_def mean_def Let_def example_floor)

theorem c5_average_rating_witness:
  "average_rating demo_state 1 = None \<and>
   average_rating reviewed_state 1 = Some 7 \<and>
   average_rating (reviewed_state\<lparr>reviews := [bob_review, root_review], next_review_id := 3\<rparr>) 1 =
     Some 6"
proof -
  have n: "\<forall>r \<in> set (reviews demo_state). title_id r \<noteq> 1"
    by (simp add: demo_state_def empty_state_def)
  show ?thesis
    using c5_average_rating [where s = demo_state and tid = 1]
      c5_average_rating [where s = reviewed_state and tid = 1 and now = 9
        and a = "Authenticated root" and d = "\<lparr>rd_text = ''slow'', rd_score = 6\<rparr>"
        and r = root_review
        and s' = "reviewed_state\<lparr>reviews := [bob_review, root_review], next_review_id := 3\<rparr>"]
      n root_creates_review example_scores example_rounding
    by simp
qed

end
